theory Spec2Isabelle
  imports Main
begin

section \<open>Python values and text formatting\<close>

text \<open>
  The queue tool (\<^verbatim>\<open>src/purchase_queue_tool.py\<close>, class \<^verbatim>\<open>PurchaseQueueTool\<close>) keeps one
  JSON document on disk and rewrites it whole on every change. Its operations return
  text. This section holds what the tool takes from Python itself: dictionaries with
  string keys, the decimal text of an integer, and the two renderings of a
  \<^verbatim>\<open>datetime\<close>.

  A dictionary \<^verbatim>\<open>Dict[str, Any]\<close> is an association list; a Python dictionary has
  each key once, and \<open>map_of\<close> is its lookup. The values have an arbitrary type
  \<open>'v\<close>: the tool never looks inside them, it only prints some of them with
  Python's \<^verbatim>\<open>str\<close>, which the model takes as the parameter \<open>py_str\<close>. Text is a list of
  bytes, so the symbols outside ASCII that the tool prints are written as their UTF-8
  bytes.
\<close>

type_synonym 'v py_dict = "(string \<times> 'v) list"

definition digit_char :: "nat \<Rightarrow> char" where
  "digit_char n = ''0123456789'' ! (n mod 10)"

text \<open>\<^verbatim>\<open>str(n)\<close> for a non-negative integer \<open>n\<close>, as in \<^verbatim>\<open>f"{len(pending)}"\<close>.\<close>

fun str_nat :: "nat \<Rightarrow> string" where
  "str_nat n = (if n < 10 then [digit_char n] else str_nat (n div 10) @ [digit_char n])"

declare str_nat.simps [simp del]

text \<open>Zero padding to a minimum width, as \<^verbatim>\<open>%02d\<close>, \<^verbatim>\<open>%04d\<close> and \<^verbatim>\<open>%06d\<close> do.\<close>

definition zero_pad :: "nat \<Rightarrow> nat \<Rightarrow> string" where
  "zero_pad k n = replicate (k - length (str_nat n)) (CHR ''0'') @ str_nat n"

record datetime =
  year :: nat
  month :: nat
  day :: nat
  hour :: nat
  minute :: nat
  second :: nat
  microsecond :: nat

text \<open>
  \<^verbatim>\<open>t.strftime("%Y%m%d_%H%M%S")\<close>, for the years of four digits that a clock of today
  shows: the microseconds are not printed.
\<close>

definition strftime_id :: "datetime \<Rightarrow> string" where
  "strftime_id t =
     zero_pad 4 (year t) @ zero_pad 2 (month t) @ zero_pad 2 (day t) @ ''_'' @
     zero_pad 2 (hour t) @ zero_pad 2 (minute t) @ zero_pad 2 (second t)"

text \<open>
  \<^verbatim>\<open>t.isoformat()\<close> of a naive \<^verbatim>\<open>datetime\<close>: the fraction is printed only when the
  microseconds are not zero.
\<close>

definition isoformat :: "datetime \<Rightarrow> string" where
  "isoformat t =
     zero_pad 4 (year t) @ ''-'' @ zero_pad 2 (month t) @ ''-'' @ zero_pad 2 (day t) @ ''T'' @
     zero_pad 2 (hour t) @ '':'' @ zero_pad 2 (minute t) @ '':'' @ zero_pad 2 (second t) @
     (if microsecond t = 0 then [] else ''.'' @ zero_pad 6 (microsecond t))"

text \<open>The UTF-8 bytes of U+2705, U+274C, U+1F4CB, U+1F539 and U+1F4CA.\<close>

definition check_mark :: string where
  "check_mark = [CHR 0xE2, CHR 0x9C, CHR 0x85]"

definition cross_mark :: string where
  "cross_mark = [CHR 0xE2, CHR 0x9D, CHR 0x8C]"

definition clipboard :: string where
  "clipboard = [CHR 0xF0, CHR 0x9F, CHR 0x93, CHR 0x8B]"

definition blue_diamond :: string where
  "blue_diamond = [CHR 0xF0, CHR 0x9F, CHR 0x94, CHR 0xB9]"

definition bar_chart :: string where
  "bar_chart = [CHR 0xF0, CHR 0x9F, CHR 0x93, CHR 0x8A]"

section \<open>The queue document\<close>

text \<open>
  A queue item is the dictionary built in \<^verbatim>\<open>_add_to_queue\<close>; \<^verbatim>\<open>completed_at\<close> and
  \<^verbatim>\<open>processed_by\<close> are keys that \<^verbatim>\<open>_mark_completed\<close> adds, so they are optional
  fields. The document is the dictionary of \<^verbatim>\<open>_initialize_queue\<close>.
\<close>

record 'v request =
  request_id :: string
  timestamp :: string
  status :: string
  validation_data :: "'v py_dict"
  created_by :: string
  completed_at :: "string option"
  processed_by :: "string option"

record queue_metadata =
  created_at :: string
  last_updated :: string

record 'v queue_data =
  pending_requests :: "'v request list"
  completed_requests :: "'v request list"
  metadata :: queue_metadata

section \<open>The world: the file, the clock and failing file operations\<close>

text \<open>
  The file \<^verbatim>\<open>self.queue_file\<close> is missing, holds text that \<^verbatim>\<open>json.load\<close> rejects with
  \<^verbatim>\<open>JSONDecodeError\<close>, or holds a queue document. The payload values in a document
  are JSON values: strings, numbers, booleans, \<^verbatim>\<open>null\<close>, lists, and dictionaries with
  string keys. These are the values that reach the tool through its entry point
  \<^verbatim>\<open>manage_purchase_queue\<close>, whose arguments are decoded from JSON, and for them
  \<^verbatim>\<open>json.dump\<close> followed by \<^verbatim>\<open>json.load\<close> gives back an equal document; so the file
  is modelled by the document it holds. A value that \<^verbatim>\<open>json.dump\<close> encodes but
  \<^verbatim>\<open>json.load\<close> gives back changed (a tuple comes back as a list, a key \<^verbatim>\<open>1\<close> as
  \<^verbatim>\<open>'1'\<close>) is outside the model, and so is a file with valid JSON of another shape.

  \<^verbatim>\<open>datetime.now()\<close> reads a clock: the world carries the sequence of readings and the
  number of readings taken so far.

  A file operation can fail. The world carries the list of outcomes the coming file
  operations will meet: \<open>Some e\<close> makes the next operation raise \<open>e\<close>, \<open>None\<close> lets it
  through; when the list is used up nothing fails any more. \<open>fault_at w i\<close> is the
  outcome that the operation after the next \<open>i\<close> will meet. A read that fails leaves
  the file as it is. A write fails in one of two places. When
  \<^verbatim>\<open>open(self.queue_file, 'w')\<close> raises (no permission, no directory), the file is as
  before. When \<^verbatim>\<open>json.dump\<close> raises \<^verbatim>\<open>TypeError\<close> because the document to write has a
  value in it that JSON cannot encode (a set, an object), \<^verbatim>\<open>open\<close> has already emptied
  the file, and what \<^verbatim>\<open>json.dump\<close> wrote before it stopped is no JSON document: the
  file is left corrupt. The type of the payload values is a parameter of the model,
  so the model cannot tell from a payload whether \<^verbatim>\<open>json.dump\<close> encodes it: that a
  write meets such a payload is an outcome \<open>Some (TypeError m)\<close> that the world
  supplies, like the other failures. A world in which no file operation fails is
  then one in which every payload written is a JSON value.
\<close>

datatype exn =
    FileNotFoundError string
  | JSONDecodeError string
  | TypeError string
  | OtherException string

text \<open>\<^verbatim>\<open>str(e)\<close>.\<close>

fun exn_str :: "exn \<Rightarrow> string" where
  "exn_str (FileNotFoundError m) = m"
| "exn_str (JSONDecodeError m) = m"
| "exn_str (TypeError m) = m"
| "exn_str (OtherException m) = m"

datatype 'v file_state = Missing | Corrupt string | Holds "'v queue_data"

record 'v world =
  queue_file :: string
  file_content :: "'v file_state"
  clock :: "nat \<Rightarrow> datetime"
  ticks :: nat
  faults :: "exn option list"

definition datetime_now :: "'v world \<Rightarrow> datetime \<times> 'v world" where
  "datetime_now w = (clock w (ticks w), w\<lparr>ticks := Suc (ticks w)\<rparr>)"

definition fault_at :: "'v world \<Rightarrow> nat \<Rightarrow> exn option" where
  "fault_at w i = (if i < length (faults w) then faults w ! i else None)"

definition next_fault :: "'v world \<Rightarrow> exn option \<times> 'v world" where
  "next_fault w = (fault_at w 0, w\<lparr>faults := tl (faults w)\<rparr>)"

text \<open>\<^verbatim>\<open>with open(self.queue_file, 'r') as f: return json.load(f)\<close>\<close>

definition read_queue_file :: "'v world \<Rightarrow> (exn + 'v queue_data) \<times> 'v world" where
  "read_queue_file w =
     (case next_fault w of
        (Some e, w') \<Rightarrow> (Inl e, w')
      | (None, w') \<Rightarrow>
          (case file_content w' of
             Missing \<Rightarrow>
               (Inl (FileNotFoundError
                  (''[Errno 2] No such file or directory: '' @ [CHR 0x27] @ queue_file w' @ [CHR 0x27])), w')
           | Corrupt m \<Rightarrow> (Inl (JSONDecodeError m), w')
           | Holds d \<Rightarrow> (Inr d, w')))"

text \<open>
  The file after a \<^verbatim>\<open>json.dump\<close> that stopped early. \<^verbatim>\<open>json.load\<close> rejects it with a
  message that depends on where the text stops; no run shows that message, as
  \<^verbatim>\<open>_load_queue\<close> catches the exception, and the model leaves it empty.
\<close>

definition cut_off :: "'v file_state" where
  "cut_off = Corrupt []"

text \<open>\<^verbatim>\<open>with open(self.queue_file, 'w') as f: json.dump(data, f, indent=2)\<close>\<close>

definition write_queue_file :: "'v queue_data \<Rightarrow> 'v world \<Rightarrow> exn option \<times> 'v world" where
  "write_queue_file d w =
     (case next_fault w of
        (Some (TypeError m), w') \<Rightarrow> (Some (TypeError m), w'\<lparr>file_content := cut_off\<rparr>)
      | (Some e, w') \<Rightarrow> (Some e, w')
      | (None, w') \<Rightarrow> (None, w'\<lparr>file_content := Holds d\<rparr>))"

section \<open>The operations of \<^verbatim>\<open>PurchaseQueueTool\<close>\<close>

text \<open>
  Every method that can raise returns \<open>Inl e\<close> (or \<open>Some e\<close> when it returns nothing)
  for the exception and the world it leaves behind. The leading underscore of the
  private methods is dropped.
\<close>

definition initial_data :: "string \<Rightarrow> string \<Rightarrow> 'v queue_data" where
  "initial_data c u =
     \<lparr>pending_requests = [], completed_requests = [],
      metadata = \<lparr>created_at = c, last_updated = u\<rparr>\<rparr>"

definition initialize_queue :: "'v world \<Rightarrow> exn option \<times> 'v world" where
  "initialize_queue w =
     (let (t1, w1) = datetime_now w;
          (t2, w2) = datetime_now w1
      in write_queue_file (initial_data (isoformat t1) (isoformat t2)) w2)"

text \<open>The tuple of \<^verbatim>\<open>except (FileNotFoundError, json.JSONDecodeError)\<close>.\<close>

fun load_recovers :: "exn \<Rightarrow> bool" where
  "load_recovers (FileNotFoundError m) = True"
| "load_recovers (JSONDecodeError m) = True"
| "load_recovers (TypeError m) = False"
| "load_recovers (OtherException m) = False"

definition load_queue :: "'v world \<Rightarrow> (exn + 'v queue_data) \<times> 'v world" where
  "load_queue w =
     (case read_queue_file w of
        (Inr d, w1) \<Rightarrow> (Inr d, w1)
      | (Inl e, w1) \<Rightarrow>
          if load_recovers e then
            (case initialize_queue w1 of
               (Some e', w2) \<Rightarrow> (Inl e', w2)
             | (None, w2) \<Rightarrow> read_queue_file w2)
          else (Inl e, w1))"

definition save_queue :: "'v queue_data \<Rightarrow> 'v world \<Rightarrow> exn option \<times> 'v world" where
  "save_queue d w =
     (let (t, w1) = datetime_now w
      in write_queue_file (d\<lparr>metadata := (metadata d)\<lparr>last_updated := isoformat t\<rparr>\<rparr>) w1)"

definition generate_request_id :: "'v world \<Rightarrow> string \<times> 'v world" where
  "generate_request_id w =
     (let (t, w1) = datetime_now w in (''PQ_'' @ strftime_id t, w1))"

text \<open>
  \<^verbatim>\<open>__init__\<close>: the file is initialized when \<^verbatim>\<open>os.path.exists\<close> does not find it.
\<close>

definition tool_init :: "'v world \<Rightarrow> exn option \<times> 'v world" where
  "tool_init w = (if file_content w = Missing then initialize_queue w else (None, w))"

text \<open>
  The dictionary \<^verbatim>\<open>queue_item\<close> that \<^verbatim>\<open>_add_to_queue\<close> builds, from the identifier, the
  creation time and the caller's payload.
\<close>

definition queue_item :: "string \<Rightarrow> string \<Rightarrow> 'v py_dict \<Rightarrow> 'v request" where
  "queue_item rid ts data =
     \<lparr>request_id = rid, timestamp = ts, status = ''pending'',
      validation_data = data, created_by = ''purchase_validation_agent'',
      completed_at = None, processed_by = None\<rparr>"

text \<open>
  \<^verbatim>\<open>_add_to_queue\<close>. \<^verbatim>\<open>not request_data\<close> holds for \<^verbatim>\<open>None\<close> and for the empty
  dictionary.
\<close>

definition add_to_queue ::
  "'v py_dict option \<Rightarrow> 'v world \<Rightarrow> (exn + string) \<times> 'v world" where
  "add_to_queue request_data w =
     (case request_data of
        None \<Rightarrow> (Inr ''Error: No request data provided'', w)
      | Some data \<Rightarrow>
          if data = [] then (Inr ''Error: No request data provided'', w)
          else
          (case load_queue w of
             (Inl e, w1) \<Rightarrow> (Inl e, w1)
           | (Inr queue_data, w1) \<Rightarrow>
               (let (rid, w2) = generate_request_id w1;
                    (t, w3) = datetime_now w2;
                    queue_data' = queue_data
                      \<lparr>pending_requests :=
                         pending_requests queue_data @ [queue_item rid (isoformat t) data]\<rparr>
                in (case save_queue queue_data' w3 of
                      (Some e, w4) \<Rightarrow> (Inl e, w4)
                    | (None, w4) \<Rightarrow>
                        (Inr (check_mark @ '' Purchase request '' @ rid @
                              '' added to queue successfully. Total pending requests: '' @
                              str_nat (length (pending_requests queue_data'))), w4)))))"

text \<open>
  The body of the loop of \<^verbatim>\<open>_get_pending_requests\<close> for one request. \<^verbatim>\<open>k in d\<close> and
  \<^verbatim>\<open>d[k]\<close> are \<open>map_of\<close>; \<^verbatim>\<open>if validation_data\<close> holds for a dictionary that is not
  empty.
\<close>

definition render_request :: "('v \<Rightarrow> string) \<Rightarrow> 'v request \<Rightarrow> string" where
  "render_request py_str request =
     blue_diamond @ '' Request ID: '' @ request_id request @ [CHR 0x0A] @
     ''   Timestamp: '' @ timestamp request @ [CHR 0x0A] @
     ''   Status: '' @ status request @ [CHR 0x0A] @
     (if validation_data request \<noteq> [] then
        ''   Validation Summary:'' @ [CHR 0x0A] @
        (case map_of (validation_data request) ''budget_status'' of
           Some v \<Rightarrow> ''     - Budget Status: '' @ py_str v @ [CHR 0x0A] | None \<Rightarrow> []) @
        (case map_of (validation_data request) ''total_cost'' of
           Some v \<Rightarrow> ''     - Total Cost: $'' @ py_str v @ [CHR 0x0A] | None \<Rightarrow> []) @
        (case map_of (validation_data request) ''supplier_count'' of
           Some v \<Rightarrow> ''     - Suppliers: '' @ py_str v @ [CHR 0x0A] | None \<Rightarrow> []) @
        (case map_of (validation_data request) ''priority_items'' of
           Some v \<Rightarrow> ''     - Critical Items: '' @ py_str v @ [CHR 0x0A] | None \<Rightarrow> [])
      else []) @
     [CHR 0x0A]"

definition get_pending_requests ::
  "('v \<Rightarrow> string) \<Rightarrow> 'v world \<Rightarrow> (exn + string) \<times> 'v world" where
  "get_pending_requests py_str w =
     (case load_queue w of
        (Inl e, w1) \<Rightarrow> (Inl e, w1)
      | (Inr queue_data, w1) \<Rightarrow>
          (let pending = pending_requests queue_data
           in if pending = [] then
                (Inr (clipboard @ '' No pending purchase requests in queue.''), w1)
              else
                (Inr (foldl (\<lambda>result request. result @ render_request py_str request)
                        (clipboard @ '' Found '' @ str_nat (length pending) @
                         '' pending purchase request(s):'' @ [CHR 0x0A, CHR 0x0A])
                        pending), w1)))"

text \<open>
  The loop of \<^verbatim>\<open>_mark_completed\<close>, \<^verbatim>\<open>for i, request in enumerate(pending_requests)\<close>, stops
  at the first request whose identifier matches; \<open>find_request\<close> is the index it stops
  at.
\<close>

fun find_request :: "string \<Rightarrow> 'v request list \<Rightarrow> nat option" where
  "find_request rid [] = None"
| "find_request rid (request # rest) =
     (if request_id request = rid then Some 0
      else map_option Suc (find_request rid rest))"

text \<open>
  The three assignments of \<^verbatim>\<open>_mark_completed\<close> to the request it found.
\<close>

definition complete_request :: "string \<Rightarrow> 'v request \<Rightarrow> 'v request" where
  "complete_request ts request =
     request\<lparr>status := ''completed'', completed_at := Some ts,
             processed_by := Some ''purchase_order_agent''\<rparr>"

text \<open>
  \<^verbatim>\<open>_mark_completed\<close>. \<^verbatim>\<open>not request_id\<close> holds for \<^verbatim>\<open>None\<close> and for the empty string.
  \<^verbatim>\<open>pending_requests.pop(i)\<close> is \<open>take i xs @ drop (Suc i) xs\<close>.
\<close>

definition mark_completed ::
  "string option \<Rightarrow> 'v world \<Rightarrow> (exn + string) \<times> 'v world" where
  "mark_completed request_id_arg w =
     (case request_id_arg of
        None \<Rightarrow> (Inr ''Error: No request ID provided'', w)
      | Some rid \<Rightarrow>
          if rid = [] then (Inr ''Error: No request ID provided'', w)
          else
          (case load_queue w of
             (Inl e, w1) \<Rightarrow> (Inl e, w1)
           | (Inr queue_data, w1) \<Rightarrow>
               (case find_request rid (pending_requests queue_data) of
                  None \<Rightarrow>
                    (Inr (cross_mark @ '' Request '' @ rid @ '' not found in pending requests''), w1)
                | Some i \<Rightarrow>
                    (let (t, w2) = datetime_now w1;
                         request = complete_request (isoformat t) (pending_requests queue_data ! i);
                         completed = completed_requests queue_data @ [request];
                         pending = take i (pending_requests queue_data) @
                                   drop (Suc i) (pending_requests queue_data);
                         queue_data' = queue_data
                           \<lparr>pending_requests := pending, completed_requests := completed\<rparr>
                     in (case save_queue queue_data' w2 of
                           (Some e, w3) \<Rightarrow> (Inl e, w3)
                         | (None, w3) \<Rightarrow>
                             (Inr (check_mark @ '' Request '' @ rid @
                                   '' marked as completed. Remaining pending: '' @
                                   str_nat (length pending)), w3))))))"

definition get_queue_status :: "'v world \<Rightarrow> (exn + string) \<times> 'v world" where
  "get_queue_status w =
     (case load_queue w of
        (Inl e, w1) \<Rightarrow> (Inl e, w1)
      | (Inr queue_data, w1) \<Rightarrow>
          (let pending_count = length (pending_requests queue_data);
               completed_count = length (completed_requests queue_data)
           in (Inr (bar_chart @ '' Purchase Queue Status:'' @ [CHR 0x0A] @
                    ''   Pending Requests: '' @ str_nat pending_count @ [CHR 0x0A] @
                    ''   Completed Requests: '' @ str_nat completed_count @ [CHR 0x0A] @
                    ''   Last Updated: '' @ last_updated (metadata queue_data) @ [CHR 0x0A]), w1)))"

text \<open>
  \<^verbatim>\<open>manage_queue\<close>: \<open>run_action\<close> is the body of the \<^verbatim>\<open>try\<close>, and \<open>manage_queue\<close> adds the
  handler \<^verbatim>\<open>except Exception as e\<close>, which turns every exception of the model into text.
\<close>

definition run_action ::
  "('v \<Rightarrow> string) \<Rightarrow> string \<Rightarrow> 'v py_dict option \<Rightarrow> string option \<Rightarrow> 'v world \<Rightarrow>
   (exn + string) \<times> 'v world" where
  "run_action py_str action request_data request_id_arg w =
     (if action = ''add_to_queue'' then add_to_queue request_data w
      else if action = ''get_pending'' then get_pending_requests py_str w
      else if action = ''mark_completed'' then mark_completed request_id_arg w
      else if action = ''get_status'' then get_queue_status w
      else (Inr (''Error: Unknown action '' @ [CHR 0x27] @ action @ [CHR 0x27] @
                 ''. Available actions: add_to_queue, get_pending, mark_completed, get_status''), w))"

definition manage_queue ::
  "('v \<Rightarrow> string) \<Rightarrow> string \<Rightarrow> 'v py_dict option \<Rightarrow> string option \<Rightarrow> 'v world \<Rightarrow>
   string \<times> 'v world" where
  "manage_queue py_str action request_data request_id_arg w =
     (case run_action py_str action request_data request_id_arg w of
        (Inl e, w') \<Rightarrow> (''Error in PurchaseQueueTool: '' @ exn_str e, w')
      | (Inr s, w') \<Rightarrow> (s, w'))"

section \<open>Runs of the queue and example worlds\<close>

text \<open>
  The two operations that change the document, as the caller reaches them through
  \<^verbatim>\<open>manage_queue\<close>, and the world after a sequence of them.
\<close>

datatype 'v queue_op = Admit "'v py_dict" | Complete string

fun perform :: "'v queue_op \<Rightarrow> 'v world \<Rightarrow> 'v world" where
  "perform (Admit data) w = snd (add_to_queue (Some data) w)"
| "perform (Complete rid) w = snd (mark_completed (Some rid) w)"

fun run :: "'v queue_op list \<Rightarrow> 'v world \<Rightarrow> 'v world" where
  "run [] w = w"
| "run (op # ops) w = run ops (perform op w)"

text \<open>The document in the file, when there is one.\<close>

definition document :: "'v world \<Rightarrow> 'v queue_data option" where
  "document w = (case file_content w of Holds d \<Rightarrow> Some d | _ \<Rightarrow> None)"

text \<open>
  The two halves of the invariant of the document: the status of every request agrees
  with the list it is in, and no identifier stands twice in the two lists taken
  together. A document is well formed when its statuses agree and none of its
  identifiers is empty; a world is consistent when no file operation is going to fail
  and the document in the file, if there is one, is well formed.
\<close>

definition status_consistent :: "'v queue_data \<Rightarrow> bool" where
  "status_consistent d \<longleftrightarrow>
     (\<forall>r \<in> set (pending_requests d). status r = ''pending'' \<and> completed_at r = None) \<and>
     (\<forall>r \<in> set (completed_requests d). status r = ''completed'' \<and> completed_at r \<noteq> None)"

definition identifiers_partitioned :: "'v queue_data \<Rightarrow> bool" where
  "identifiers_partitioned d \<longleftrightarrow>
     distinct (map request_id (pending_requests d @ completed_requests d))"

definition identifiers_nonempty :: "'v queue_data \<Rightarrow> bool" where
  "identifiers_nonempty d \<longleftrightarrow>
     (\<forall>r \<in> set (pending_requests d @ completed_requests d). request_id r \<noteq> [])"

definition well_formed :: "'v queue_data \<Rightarrow> bool" where
  "well_formed d \<longleftrightarrow> status_consistent d \<and> identifiers_nonempty d"

definition world_consistent :: "'v world \<Rightarrow> bool" where
  "world_consistent w \<longleftrightarrow>
     faults w = [] \<and> (\<forall>d. file_content w = Holds d \<longrightarrow> well_formed d)"

text \<open>
  A clock whose readings all fall in the second 2025-01-01 12:00:00 and differ in
  their microseconds, and a clock that advances by one second at every reading.
\<close>

definition same_second_clock :: "nat \<Rightarrow> datetime" where
  "same_second_clock n =
     \<lparr>year = 2025, month = 1, day = 1, hour = 12, minute = 0, second = 0,
      microsecond = 1000 * n + 1\<rparr>"

definition ticking_clock :: "nat \<Rightarrow> datetime" where
  "ticking_clock n =
     \<lparr>year = 2025, month = 1, day = 1, hour = 12, minute = 0, second = n mod 60,
      microsecond = 0\<rparr>"

text \<open>
  A world with no queue file yet, and the world that \<^verbatim>\<open>PurchaseQueueTool()\<close> makes
  of it. The payloads are dictionaries of strings, for which \<^verbatim>\<open>str\<close> is the identity.
\<close>

definition no_file_world :: "(nat \<Rightarrow> datetime) \<Rightarrow> exn option list \<Rightarrow> string world" where
  "no_file_world c fs =
     \<lparr>queue_file = ''data/purchase_queue.json'', file_content = Missing,
      clock = c, ticks = 0, faults = fs\<rparr>"

definition fresh_world :: "(nat \<Rightarrow> datetime) \<Rightarrow> string world" where
  "fresh_world c = snd (tool_init (no_file_world c []))"

definition payload_a :: "string py_dict" where
  "payload_a = [(''supplier_name'', ''Test Supplier''), (''budget_status'', ''approved'')]"

definition payload_b :: "string py_dict" where
  "payload_b = [(''supplier_name'', ''Other Supplier''), (''total_cost'', ''1000.0'')]"

definition payload_c :: "string py_dict" where
  "payload_c = [(''supplier_name'', ''Third Supplier'')]"

text \<open>
  A document with three pending requests, the last two under one identifier, and a
  world that holds it.
\<close>

definition example_doc :: "string queue_data" where
  "example_doc =
     \<lparr>pending_requests =
        [queue_item ''PQ_20250101_115900'' ''2025-01-01T11:59:00.250000'' payload_a,
         queue_item ''PQ_20250101_115901'' ''2025-01-01T11:59:01.100000'' payload_b,
         queue_item ''PQ_20250101_115901'' ''2025-01-01T11:59:01.900000'' payload_c],
      completed_requests = [],
      metadata = \<lparr>created_at = ''2025-01-01T11:58:00'',
                  last_updated = ''2025-01-01T11:59:01.950000''\<rparr>\<rparr>"

definition example_world :: "string world" where
  "example_world =
     \<lparr>queue_file = ''data/purchase_queue.json'', file_content = Holds example_doc,
      clock = ticking_clock, ticks = 0, faults = []\<rparr>"

text \<open>
  The error of a file that the process may not open, a world whose file holds
  \<open>example_doc\<close> but cannot be read, and a world with no file in which the third file
  operation fails.
\<close>

definition permission_denied :: exn where
  "permission_denied =
     OtherException (''[Errno 13] Permission denied: '' @ [CHR 0x27] @
                     ''data/purchase_queue.json'' @ [CHR 0x27])"

definition unreadable_world :: "string world" where
  "unreadable_world =
     \<lparr>queue_file = ''data/purchase_queue.json'', file_content = Holds example_doc,
      clock = ticking_clock, ticks = 0, faults = [Some permission_denied]\<rparr>"

definition failing_retry_world :: "string world" where
  "failing_retry_world = no_file_world ticking_clock [None, None, Some permission_denied]"

text \<open>
  A world in which the tool loads \<open>example_doc\<close> and then \<^verbatim>\<open>json.dump\<close> meets a value it
  cannot encode.
\<close>

definition unencodable_world :: "string world" where
  "unencodable_world =
     \<lparr>queue_file = ''data/purchase_queue.json'', file_content = Holds example_doc,
      clock = ticking_clock, ticks = 0,
      faults = [None, Some (TypeError ''Object of type set is not JSON serializable'')]\<rparr>"

text \<open>
  JSON values written out, for payloads with structure; a number with a fraction is
  kept as the text that Python prints for it. \<open>documented_payload\<close> is the payload that
  \<^verbatim>\<open>self.description\<close> gives as the expected format of \<^verbatim>\<open>add_to_queue\<close>,
  \<open>other_payload\<close> a request to another supplier, and \<open>json_store\<close> the store that
  \<^verbatim>\<open>PurchaseQueueTool()\<close> makes where there is no file.
\<close>

datatype json =
    JNull
  | JBool bool
  | JInt int
  | JReal string
  | JStr string
  | JList "json list"
  | JDict "(string \<times> json) list"

definition documented_payload :: "json py_dict" where
  "documented_payload =
     [(''supplier_name'', JStr ''Supplier Company Name''),
      (''supplier_contact'',
         JDict [(''contact_person'', JStr ''Contact Name''),
                (''email'', JStr ''supplier@email.com'')]),
      (''line_items'',
         JList [JDict [(''item_code'', JStr ''ITM001''),
                       (''description'', JStr ''Item description''),
                       (''quantity'', JInt 100),
                       (''unit_price'', JReal ''25.5''),
                       (''uom'', JStr ''pcs''),
                       (''urgency'', JStr ''high''),
                       (''budget_code'', JStr ''DEPT001''),
                       (''estimated_total'', JReal ''2550.0'')]]),
      (''delivery_requirements'',
         JDict [(''delivery_date'', JStr ''YYYY-MM-DD''),
                (''delivery_address'', JStr ''Complete address''),
                (''special_instructions'', JStr ''Any special requirements'')]),
      (''budget_validation'',
         JDict [(''approved'', JBool True),
                (''budget_available'', JReal ''50000.0''),
                (''estimated_cost'', JReal ''2550.0'')]),
      (''priority'', JStr ''high''),
      (''request_date'', JStr ''YYYY-MM-DD''),
      (''validated_by'', JStr ''Validator Name'')]"

definition other_payload :: "json py_dict" where
  "other_payload =
     [(''supplier_name'', JStr ''Another Company''),
      (''line_items'',
         JList [JDict [(''item_code'', JStr ''ITM777''), (''quantity'', JInt 3)]]),
      (''priority'', JStr ''low'')]"

definition json_store :: "json world" where
  "json_store =
     snd (tool_init \<lparr>queue_file = ''data/purchase_queue.json'', file_content = Missing,
                     clock = ticking_clock, ticks = 0, faults = []\<rparr>)"

section \<open>Evaluating the text renderings\<close>

text \<open>
  \<open>str_nat\<close> is kept out of the simplifier; these equations unfold it on numerals, one
  digit at a time.
\<close>

lemma str_nat_small: "n < 10 \<Longrightarrow> str_nat n = [digit_char n]"
  by (subst str_nat.simps) simp

lemma str_nat_large: "\<not> n < 10 \<Longrightarrow> str_nat n = str_nat (n div 10) @ [digit_char n]"
  by (subst str_nat.simps) simp

lemma replicate_numeral_Cons: "replicate (numeral k) c = c # replicate (numeral k - 1) c"
  by (simp add: numeral_eq_Suc)

lemmas render_simps = str_nat_small str_nat_large digit_char_def zero_pad_def strftime_id_def
  isoformat_def replicate_numeral_Cons

text \<open>
  Two readings of the clock that agree down to the second give the same identifier
  text, whatever their microseconds.
\<close>

lemma same_second_same_identifier:
  assumes "year s = year t" and "month s = month t" and "day s = day t"
    and "hour s = hour t" and "minute s = minute t" and "second s = second t"
  shows "strftime_id s = strftime_id t"
  using assms by (simp add: strftime_id_def)

lemma strftime_id_same_second: "strftime_id (same_second_clock n) = ''20250101_120000''"
  by (simp add: same_second_clock_def render_simps)

lemma isoformat_ticking:
  "n < 10 \<Longrightarrow> isoformat (ticking_clock n) = ''2025-01-01T12:00:0'' @ [digit_char n]"
  by (simp add: ticking_clock_def render_simps)

lemma strftime_id_ticking:
  "n < 10 \<Longrightarrow> strftime_id (ticking_clock n) = ''20250101_12000'' @ [digit_char n]"
  by (simp add: ticking_clock_def render_simps)

lemma generate_request_id_nonempty: "fst (generate_request_id w) \<noteq> []"
  by (simp add: generate_request_id_def datetime_now_def)

section \<open>File operations in a world where none of them fails\<close>

lemma next_fault_none: "faults w = [] \<Longrightarrow> next_fault w = (None, w)"
  by (simp add: next_fault_def fault_at_def)

lemma read_queue_file_Holds:
  "faults w = [] \<Longrightarrow> file_content w = Holds d \<Longrightarrow> read_queue_file w = (Inr d, w)"
  by (simp add: read_queue_file_def next_fault_none)

lemma write_queue_file_ok:
  "faults w = [] \<Longrightarrow> write_queue_file d w = (None, w\<lparr>file_content := Holds d\<rparr>)"
  by (simp add: write_queue_file_def next_fault_none)

lemma load_queue_Holds:
  "faults w = [] \<Longrightarrow> file_content w = Holds d \<Longrightarrow> load_queue w = (Inr d, w)"
  by (simp add: load_queue_def read_queue_file_Holds)

lemma save_queue_ok:
  "faults w = [] \<Longrightarrow>
   save_queue d w =
     (None, w\<lparr>ticks := Suc (ticks w),
              file_content := Holds (d\<lparr>metadata := (metadata d)\<lparr>last_updated := isoformat (clock w (ticks w))\<rparr>\<rparr>)\<rparr>)"
  by (simp add: save_queue_def datetime_now_def write_queue_file_ok)

lemma initialize_queue_ok:
  "faults w = [] \<Longrightarrow>
   initialize_queue w =
     (None, w\<lparr>ticks := Suc (Suc (ticks w)),
              file_content := Holds (initial_data (isoformat (clock w (ticks w)))
                                       (isoformat (clock w (Suc (ticks w)))))\<rparr>)"
  by (simp add: initialize_queue_def datetime_now_def write_queue_file_ok)

lemma load_queue_no_document:
  assumes "faults w = []" and "file_content w = Missing \<or> file_content w = Corrupt m"
  shows "load_queue w =
     (Inr (initial_data (isoformat (clock w (ticks w))) (isoformat (clock w (Suc (ticks w))))),
      w\<lparr>ticks := Suc (Suc (ticks w)),
        file_content := Holds (initial_data (isoformat (clock w (ticks w)))
                                 (isoformat (clock w (Suc (ticks w)))))\<rparr>)"
  using assms
  by (auto simp: load_queue_def read_queue_file_def next_fault_none initialize_queue_ok)

lemma load_queue_no_faults:
  assumes "faults w = []" and "load_queue w = (r, w1)"
  shows "faults w1 = [] \<and> clock w1 = clock w \<and> queue_file w1 = queue_file w \<and>
         (\<exists>d. r = Inr d \<and> file_content w1 = Holds d)"
proof (cases "file_content w")
  case Missing
  with assms load_queue_no_document [of w] show ?thesis by auto
next
  case (Corrupt m)
  with assms load_queue_no_document [of w m] show ?thesis by auto
next
  case (Holds d)
  with assms load_queue_Holds [of w d] show ?thesis by auto
qed

lemma load_queue_cases:
  assumes "faults w = []"
  obtains (held) d where "file_content w = Holds d" and "load_queue w = (Inr d, w)"
  | (skeleton) c u w1 where "load_queue w = (Inr (initial_data c u), w1)"
      and "faults w1 = []" and "file_content w1 = Holds (initial_data c u)"
proof (cases "file_content w")
  case Missing
  then have "file_content w = Missing \<or> file_content w = Corrupt []" by simp
  from load_queue_no_document [OF assms this] show ?thesis
    by (rule skeleton) (simp_all add: assms)
next
  case (Corrupt m)
  then have "file_content w = Missing \<or> file_content w = Corrupt m" by simp
  from load_queue_no_document [OF assms this] show ?thesis
    by (rule skeleton) (simp_all add: assms)
next
  case (Holds d)
  from this load_queue_Holds [OF assms this] show ?thesis by (rule held)
qed

section \<open>File operations that may fail\<close>

lemma read_queue_file_fault:
  "read_queue_file w =
     ((case fault_at w 0 of
         Some e \<Rightarrow> Inl e
       | None \<Rightarrow>
           (case file_content w of
              Missing \<Rightarrow> Inl (FileNotFoundError
                (''[Errno 2] No such file or directory: '' @ [CHR 0x27] @ queue_file w @ [CHR 0x27]))
            | Corrupt m \<Rightarrow> Inl (JSONDecodeError m)
            | Holds d \<Rightarrow> Inr d)),
      w\<lparr>faults := tl (faults w)\<rparr>)"
  by (simp add: read_queue_file_def next_fault_def split: option.splits file_state.splits)

lemma faults_shape:
  obtains "faults w = []" | f1 where "faults w = [f1]" | f1 f2 where "faults w = [f1, f2]"
  | f1 f2 f3 fs where "faults w = f1 # f2 # f3 # fs"
proof (cases "faults w")
  case Nil
  then show ?thesis using that by blast
next
  case (Cons f1 fs1)
  then show ?thesis
  proof (cases fs1)
    case Nil
    with Cons show ?thesis using that by blast
  next
    case (Cons f2 fs2)
    with \<open>faults w = f1 # fs1\<close> show ?thesis using that by (cases fs2) auto
  qed
qed

lemma load_queue_recovery_raised:
  assumes "fst (read_queue_file w) = Inl e0" and "load_recovers e0" and "fault_at w 1 = None"
  shows "load_queue w =
     ((case fault_at w 2 of
         None \<Rightarrow> Inr (initial_data (isoformat (clock w (ticks w)))
                        (isoformat (clock w (ticks w + 1))))
       | Some e \<Rightarrow> Inl e),
      w\<lparr>ticks := ticks w + 2, faults := drop 3 (faults w),
        file_content := Holds (initial_data (isoformat (clock w (ticks w)))
                                 (isoformat (clock w (ticks w + 1))))\<rparr>)"
proof (cases rule: faults_shape [of w])
  case 1
  with assms show ?thesis
    by (auto simp: load_queue_def read_queue_file_def next_fault_def initialize_queue_def
        datetime_now_def write_queue_file_def fault_at_def numeral_2_eq_2
        split: file_state.splits)
next
  case (2 f1)
  with assms show ?thesis
    by (auto simp: load_queue_def read_queue_file_def next_fault_def initialize_queue_def
        datetime_now_def write_queue_file_def fault_at_def numeral_2_eq_2
        split: file_state.splits option.splits)
next
  case (3 f1 f2)
  with assms show ?thesis
    by (auto simp: load_queue_def read_queue_file_def next_fault_def initialize_queue_def
        datetime_now_def write_queue_file_def fault_at_def numeral_2_eq_2
        split: file_state.splits option.splits)
next
  case (4 f1 f2 f3 fs)
  with assms show ?thesis
    by (auto simp: load_queue_def read_queue_file_def next_fault_def initialize_queue_def
        datetime_now_def write_queue_file_def fault_at_def numeral_2_eq_2 numeral_3_eq_3
        split: file_state.splits option.splits)
qed

lemma load_queue_other_error:
  assumes "fault_at w 0 = Some (OtherException m)"
  shows "load_queue w = (Inl (OtherException m), w\<lparr>faults := tl (faults w)\<rparr>)"
  using assms by (simp add: load_queue_def read_queue_file_fault)

lemma manage_queue_load_error:
  assumes "load_queue w = (Inl e, w')"
  shows "manage_queue py_str ''get_pending'' rd rid w = (''Error in PurchaseQueueTool: '' @ exn_str e, w')"
    and "manage_queue py_str ''get_status'' rd rid w = (''Error in PurchaseQueueTool: '' @ exn_str e, w')"
    and "data \<noteq> [] \<Longrightarrow> manage_queue py_str ''add_to_queue'' (Some data) rid w =
           (''Error in PurchaseQueueTool: '' @ exn_str e, w')"
    and "r \<noteq> [] \<Longrightarrow> manage_queue py_str ''mark_completed'' rd (Some r) w =
           (''Error in PurchaseQueueTool: '' @ exn_str e, w')"
  using assms
  by (simp_all add: manage_queue_def run_action_def get_pending_requests_def
      get_queue_status_def add_to_queue_def mark_completed_def)

text \<open>
  A payload that \<^verbatim>\<open>json.dump\<close> cannot encode: the write raises \<^verbatim>\<open>TypeError\<close> after
  \<^verbatim>\<open>open\<close> has emptied the file. \<^verbatim>\<open>manage_queue\<close> returns the error text, and the file
  is left corrupt, so that the next load replaces the queue by an empty skeleton.
\<close>

lemma write_queue_file_TypeError:
  assumes "fault_at w 0 = Some (TypeError m)"
  shows "write_queue_file d w =
     (Some (TypeError m), w\<lparr>faults := tl (faults w), file_content := cut_off\<rparr>)"
  using assms by (simp add: write_queue_file_def next_fault_def)

lemma add_to_queue_unencodable:
  assumes "data \<noteq> []" and "file_content w = Holds d"
    and "faults w = [None, Some (TypeError m)]"
  shows "manage_queue py_str ''add_to_queue'' (Some data) rid w =
     (''Error in PurchaseQueueTool: '' @ m,
      w\<lparr>ticks := ticks w + 3, faults := [], file_content := cut_off\<rparr>)"
  using assms
  by (simp add: manage_queue_def run_action_def add_to_queue_def load_queue_def
      read_queue_file_def next_fault_def fault_at_def generate_request_id_def datetime_now_def
      save_queue_def write_queue_file_def numeral_3_eq_3)

lemma unencodable_payload_empties_the_file:
  "manage_queue (\<lambda>s. s) ''add_to_queue'' (Some payload_c) None unencodable_world =
     (''Error in PurchaseQueueTool: Object of type set is not JSON serializable'',
      \<lparr>queue_file = ''data/purchase_queue.json'', file_content = Corrupt [],
       clock = ticking_clock, ticks = 3, faults = []\<rparr>)"
proof -
  have "payload_c \<noteq> []" by (simp add: payload_c_def)
  from add_to_queue_unencodable [OF this, of unencodable_world example_doc
      "''Object of type set is not JSON serializable''" "\<lambda>s. s" None]
  show ?thesis by (simp add: unencodable_world_def cut_off_def)
qed

section \<open>The operations on a loaded document\<close>

subsection \<open>The search of \<open>mark_completed\<close>\<close>

lemma find_request_None: "find_request rid rs = None \<longleftrightarrow> rid \<notin> request_id ` set rs"
  by (induction rs) auto

lemma find_request_Some:
  "find_request rid rs = Some i \<Longrightarrow>
     i < length rs \<and> request_id (rs ! i) = rid \<and> (\<forall>r \<in> set (take i rs). request_id r \<noteq> rid)"
proof (induction rs arbitrary: i)
  case Nil
  then show ?case by simp
next
  case (Cons r rs)
  show ?case
  proof (cases "request_id r = rid")
    case True
    with Cons.prems show ?thesis by simp
  next
    case False
    with Cons.prems obtain j where j: "find_request rid rs = Some j" and i: "i = Suc j"
      by auto
    from Cons.IH [OF j] i False show ?thesis by simp
  qed
qed

lemma find_request_split:
  assumes "find_request rid rs = Some i"
  shows "rs = take i rs @ rs ! i # drop (Suc i) rs"
  using find_request_Some [OF assms] by (simp add: id_take_nth_drop)

lemma find_request_first:
  assumes "rs = before @ r # after" and "request_id r = rid"
    and "\<forall>x \<in> set before. request_id x \<noteq> rid"
  shows "find_request rid rs = Some (length before)"
  using assms by (induction before arbitrary: rs) auto

subsection \<open>Admission\<close>

lemma add_to_queue_empty:
  "request_data = None \<or> request_data = Some [] \<Longrightarrow>
   add_to_queue request_data w = (Inr ''Error: No request data provided'', w)"
  by (auto simp: add_to_queue_def)

lemma add_to_queue_loaded:
  assumes "data \<noteq> []" and "faults w = []" and "load_queue w = (Inr d, w1)"
  shows "add_to_queue (Some data) w =
     (Inr (check_mark @ '' Purchase request '' @ ''PQ_'' @ strftime_id (clock w1 (ticks w1)) @
           '' added to queue successfully. Total pending requests: '' @
           str_nat (Suc (length (pending_requests d)))),
      w1\<lparr>ticks := ticks w1 + 3,
         file_content := Holds
           (d\<lparr>pending_requests := pending_requests d @
                 [queue_item (''PQ_'' @ strftime_id (clock w1 (ticks w1)))
                    (isoformat (clock w1 (ticks w1 + 1))) data],
              metadata := (metadata d)\<lparr>last_updated := isoformat (clock w1 (ticks w1 + 2))\<rparr>\<rparr>)\<rparr>)"
proof -
  from load_queue_no_faults [OF assms(2,3)] have "faults w1 = []" by simp
  then show ?thesis
    by (simp add: add_to_queue_def assms(1,3) generate_request_id_def datetime_now_def
        save_queue_ok numeral_3_eq_3)
qed

lemma add_to_queue_Holds:
  assumes "data \<noteq> []" and "faults w = []" and "file_content w = Holds d"
  shows "add_to_queue (Some data) w =
     (Inr (check_mark @ '' Purchase request '' @ ''PQ_'' @ strftime_id (clock w (ticks w)) @
           '' added to queue successfully. Total pending requests: '' @
           str_nat (Suc (length (pending_requests d)))),
      w\<lparr>ticks := ticks w + 3,
        file_content := Holds
          (d\<lparr>pending_requests := pending_requests d @
                [queue_item (''PQ_'' @ strftime_id (clock w (ticks w)))
                   (isoformat (clock w (ticks w + 1))) data],
             metadata := (metadata d)\<lparr>last_updated := isoformat (clock w (ticks w + 2))\<rparr>\<rparr>)\<rparr>)"
  by (simp add: add_to_queue_def load_queue_Holds assms generate_request_id_def
      datetime_now_def save_queue_ok numeral_3_eq_3)

lemma admit_on_skeleton:
  assumes "x \<noteq> []" and "faults w = []" and "file_content w = Holds (initial_data c u)"
  shows "snd (add_to_queue (Some x) w) =
     w\<lparr>ticks := ticks w + 3,
       file_content := Holds
         \<lparr>pending_requests =
            [queue_item (''PQ_'' @ strftime_id (clock w (ticks w)))
               (isoformat (clock w (ticks w + 1))) x],
          completed_requests = [],
          metadata = \<lparr>created_at = c, last_updated = isoformat (clock w (ticks w + 2))\<rparr>\<rparr>\<rparr>"
  by (simp add: add_to_queue_Holds [OF assms] initial_data_def)

text \<open>
  What an admission does to the world: with no payload or an empty one, nothing; with
  a payload that is not empty, in a world where no file operation fails, it appends
  one pending request with the payload and the identifier that it prints from the
  clock, writes the document and returns the identifier and the new count.
\<close>

lemma add_to_queue_appends:
  "((request_data = None \<or> request_data = Some []) \<longrightarrow>
      add_to_queue request_data w = (Inr ''Error: No request data provided'', w)) \<and>
   (data \<noteq> [] \<and> faults w = [] \<and> load_queue w = (Inr d, w1) \<longrightarrow>
      add_to_queue (Some data) w =
        (Inr (check_mark @ '' Purchase request '' @ ''PQ_'' @ strftime_id (clock w1 (ticks w1)) @
              '' added to queue successfully. Total pending requests: '' @
              str_nat (length (pending_requests d) + 1)),
         w1\<lparr>ticks := ticks w1 + 3,
            file_content := Holds
              (d\<lparr>pending_requests := pending_requests d @
                    [\<lparr>request_id = ''PQ_'' @ strftime_id (clock w1 (ticks w1)),
                      timestamp = isoformat (clock w1 (ticks w1 + 1)),
                      status = ''pending'',
                      validation_data = data,
                      created_by = ''purchase_validation_agent'',
                      completed_at = None, processed_by = None\<rparr>],
                 metadata := (metadata d)
                    \<lparr>last_updated := isoformat (clock w1 (ticks w1 + 2))\<rparr>\<rparr>)\<rparr>))"
  by (simp add: add_to_queue_empty add_to_queue_loaded queue_item_def)

subsection \<open>Completion\<close>

lemma mark_completed_empty:
  "request_id_arg = None \<or> request_id_arg = Some [] \<Longrightarrow>
   mark_completed request_id_arg w = (Inr ''Error: No request ID provided'', w)"
  by (auto simp: mark_completed_def)

lemma mark_completed_loaded:
  assumes "rid \<noteq> []" and "load_queue w = (Inr d, w1)" and "faults w1 = []"
  shows "mark_completed (Some rid) w =
     (case find_request rid (pending_requests d) of
        None \<Rightarrow> (Inr (cross_mark @ '' Request '' @ rid @ '' not found in pending requests''), w1)
      | Some i \<Rightarrow>
          (Inr (check_mark @ '' Request '' @ rid @ '' marked as completed. Remaining pending: '' @
                str_nat (length (take i (pending_requests d) @ drop (Suc i) (pending_requests d)))),
           w1\<lparr>ticks := ticks w1 + 2,
              file_content := Holds
                (d\<lparr>pending_requests := take i (pending_requests d) @ drop (Suc i) (pending_requests d),
                   completed_requests := completed_requests d @
                     [complete_request (isoformat (clock w1 (ticks w1))) (pending_requests d ! i)],
                   metadata := (metadata d)\<lparr>last_updated := isoformat (clock w1 (ticks w1 + 1))\<rparr>\<rparr>)\<rparr>))"
  using assms
  by (simp add: mark_completed_def datetime_now_def save_queue_ok split: option.splits)

lemma mark_completed_not_found:
  assumes "rid \<noteq> []" and "faults w = []" and "file_content w = Holds d"
    and "rid \<notin> request_id ` set (pending_requests d)"
  shows "mark_completed (Some rid) w =
     (Inr (cross_mark @ '' Request '' @ rid @ '' not found in pending requests''), w)"
proof -
  from assms(4) have "find_request rid (pending_requests d) = None"
    by (simp add: find_request_None)
  then show ?thesis
    by (simp add: mark_completed_def assms(1) load_queue_Holds assms(2,3))
qed

lemma mark_completed_found:
  assumes "rid \<noteq> []" and "faults w = []" and "file_content w = Holds d"
    and "find_request rid (pending_requests d) = Some i"
  shows "mark_completed (Some rid) w =
     (Inr (check_mark @ '' Request '' @ rid @ '' marked as completed. Remaining pending: '' @
           str_nat (length (pending_requests d) - 1)),
      w\<lparr>ticks := ticks w + 2,
        file_content := Holds
          (d\<lparr>pending_requests := take i (pending_requests d) @ drop (Suc i) (pending_requests d),
             completed_requests := completed_requests d @
                [complete_request (isoformat (clock w (ticks w))) (pending_requests d ! i)],
             metadata := (metadata d)\<lparr>last_updated := isoformat (clock w (ticks w + 1))\<rparr>\<rparr>)\<rparr>)"
proof -
  from find_request_Some [OF assms(4)] have i: "i < length (pending_requests d)" by simp
  then have len: "min (length (pending_requests d)) i + (length (pending_requests d) - Suc i) = length (pending_requests d) - 1"
    by simp
  show ?thesis
    using assms(4) i
    by (simp add: mark_completed_def assms(1) load_queue_Holds assms(2,3)
        datetime_now_def save_queue_ok len)
qed

lemma mark_completed_first_match:
  assumes "rid \<noteq> []" and "faults w = []" and "file_content w = Holds d"
    and "rid \<in> request_id ` set (pending_requests d)"
  shows "\<exists>before r after.
     pending_requests d = before @ r # after \<and> request_id r = rid \<and>
     (\<forall>x \<in> set before. request_id x \<noteq> rid) \<and>
     mark_completed (Some rid) w =
       (Inr (check_mark @ '' Request '' @ rid @ '' marked as completed. Remaining pending: '' @
             str_nat (length (before @ after))),
        w\<lparr>ticks := ticks w + 2,
          file_content := Holds
            \<lparr>pending_requests = before @ after,
             completed_requests = completed_requests d @
               [complete_request (isoformat (clock w (ticks w))) r],
             metadata = (metadata d)\<lparr>last_updated := isoformat (clock w (ticks w + 1))\<rparr>\<rparr>\<rparr>)"
proof -
  let ?p = "pending_requests d"
  from assms(4) obtain i where i: "find_request rid ?p = Some i"
    by (cases "find_request rid ?p") (auto simp: find_request_None)
  from find_request_Some [OF i]
  have lt: "i < length ?p" and hit: "request_id (?p ! i) = rid"
    and first: "\<forall>x \<in> set (take i ?p). request_id x \<noteq> rid"
    by simp_all
  have split: "?p = take i ?p @ ?p ! i # drop (Suc i) ?p"
    by (rule find_request_split [OF i])
  have len: "length (take i ?p @ drop (Suc i) ?p) = length ?p - 1"
    using lt by simp
  have "mark_completed (Some rid) w =
       (Inr (check_mark @ '' Request '' @ rid @ '' marked as completed. Remaining pending: '' @
             str_nat (length (take i ?p @ drop (Suc i) ?p))),
        w\<lparr>ticks := ticks w + 2,
          file_content := Holds
            \<lparr>pending_requests = take i ?p @ drop (Suc i) ?p,
             completed_requests = completed_requests d @
               [complete_request (isoformat (clock w (ticks w))) (?p ! i)],
             metadata = (metadata d)\<lparr>last_updated := isoformat (clock w (ticks w + 1))\<rparr>\<rparr>\<rparr>)"
    unfolding len by (simp add: mark_completed_found [OF assms(1-3) i])
  with split hit first show ?thesis by blast
qed

lemma mark_completed_once:
  assumes "rid \<noteq> []" and "faults w = []" and "file_content w = Holds d"
    and "pending_requests d = before @ r # after" and "request_id r = rid"
    and "\<forall>x \<in> set before. request_id x \<noteq> rid"
    and "\<forall>x \<in> set after. request_id x \<noteq> rid"
  shows "\<exists>s w'. mark_completed (Some rid) w = (Inr s, w') \<and>
           mark_completed (Some rid) w' =
             (Inr (cross_mark @ '' Request '' @ rid @ '' not found in pending requests''), w')"
proof -
  have i: "find_request rid (pending_requests d) = Some (length before)"
    using assms(4-6) by (rule find_request_first)
  let ?d' = "d\<lparr>pending_requests := before @ after,
               completed_requests := completed_requests d @
                 [complete_request (isoformat (clock w (ticks w))) r],
               metadata := (metadata d)\<lparr>last_updated := isoformat (clock w (ticks w + 1))\<rparr>\<rparr>"
  let ?w' = "w\<lparr>ticks := ticks w + 2, file_content := Holds ?d'\<rparr>"
  have first: "mark_completed (Some rid) w =
      (Inr (check_mark @ '' Request '' @ rid @ '' marked as completed. Remaining pending: '' @
            str_nat (length (pending_requests d) - 1)), ?w')"
    by (simp add: mark_completed_found [OF assms(1-3) i] assms(4))
  have gone: "rid \<notin> request_id ` set (pending_requests ?d')"
    using assms(6,7) by auto
  have "mark_completed (Some rid) ?w' =
      (Inr (cross_mark @ '' Request '' @ rid @ '' not found in pending requests''), ?w')"
    by (rule mark_completed_not_found [OF assms(1) _ _ gone]) (simp_all add: assms(2))
  with first show ?thesis by blast
qed

subsection \<open>Listing and status\<close>

lemma get_queue_status_Holds:
  assumes "faults w = []" and "file_content w = Holds d"
  shows "get_queue_status w =
     (Inr (bar_chart @ '' Purchase Queue Status:'' @ [CHR 0x0A] @
           ''   Pending Requests: '' @ str_nat (length (pending_requests d)) @ [CHR 0x0A] @
           ''   Completed Requests: '' @ str_nat (length (completed_requests d)) @ [CHR 0x0A] @
           ''   Last Updated: '' @ last_updated (metadata d) @ [CHR 0x0A]), w)"
  by (simp add: get_queue_status_def load_queue_Holds assms)

lemma get_pending_requests_Holds:
  assumes "faults w = []" and "file_content w = Holds d"
  shows "get_pending_requests py_str w =
     (Inr (if pending_requests d = [] then clipboard @ '' No pending purchase requests in queue.''
           else foldl (\<lambda>result request. result @ render_request py_str request)
                  (clipboard @ '' Found '' @ str_nat (length (pending_requests d)) @
                   '' pending purchase request(s):'' @ [CHR 0x0A, CHR 0x0A])
                  (pending_requests d)), w)"
  by (simp add: get_pending_requests_def load_queue_Holds assms Let_def)

text \<open>
  After an admission on a skeleton the document holds one pending request with the
  payload as it was given, and the listing is the header for one request followed by
  the rendering of that request.
\<close>

lemma admit_then_get_pending_text:
  assumes "x \<noteq> []" and "faults w = []" and "file_content w = Holds (initial_data c u)"
  shows "\<exists>e w'. w' = snd (add_to_queue (Some x) w) \<and>
     file_content w' = Holds
       \<lparr>pending_requests = [e], completed_requests = [],
        metadata = \<lparr>created_at = c, last_updated = isoformat (clock w (ticks w + 2))\<rparr>\<rparr> \<and>
     validation_data e = x \<and>
     request_id e = ''PQ_'' @ strftime_id (clock w (ticks w)) \<and>
     status e = ''pending'' \<and>
     get_pending_requests py_str w' =
       (Inr (clipboard @ '' Found 1 pending purchase request(s):'' @ [CHR 0x0A, CHR 0x0A] @
             render_request py_str e), w')"
proof -
  let ?e = "queue_item (''PQ_'' @ strftime_id (clock w (ticks w)))
               (isoformat (clock w (ticks w + 1))) x"
  let ?d = "\<lparr>pending_requests = [?e], completed_requests = [],
          metadata = \<lparr>created_at = c, last_updated = isoformat (clock w (ticks w + 2))\<rparr>\<rparr>"
  let ?w' = "snd (add_to_queue (Some x) w)"
  have w': "?w' = w\<lparr>ticks := ticks w + 3, file_content := Holds ?d\<rparr>"
    by (rule admit_on_skeleton [OF assms])
  have fc: "file_content ?w' = Holds ?d" and nf: "faults ?w' = []"
    by (simp_all add: w' assms(2))
  have "get_pending_requests py_str ?w' =
       (Inr (clipboard @ '' Found 1 pending purchase request(s):'' @ [CHR 0x0A, CHR 0x0A] @
             render_request py_str ?e), ?w')"
    by (simp add: get_pending_requests_Holds [OF nf fc] str_nat_small digit_char_def)
  moreover have "validation_data ?e = x" and "status ?e = ''pending''"
    and "request_id ?e = ''PQ_'' @ strftime_id (clock w (ticks w))"
    by (simp_all add: queue_item_def)
  ultimately show ?thesis using fc by blast
qed

section \<open>The operations on a world written out\<close>

text \<open>
  The same facts for a world given field by field, as rewrite rules for running the
  operations on the example worlds.
\<close>

lemma add_to_queue_literal:
  "data \<noteq> [] \<Longrightarrow>
   add_to_queue (Some data)
     \<lparr>queue_file = q, file_content = Holds d, clock = c, ticks = n, faults = []\<rparr> =
     (Inr (check_mark @ '' Purchase request '' @ ''PQ_'' @ strftime_id (c n) @
           '' added to queue successfully. Total pending requests: '' @
           str_nat (Suc (length (pending_requests d)))),
      \<lparr>queue_file = q,
       file_content = Holds
         (d\<lparr>pending_requests := pending_requests d @
               [queue_item (''PQ_'' @ strftime_id (c n)) (isoformat (c (n + 1))) data],
            metadata := (metadata d)\<lparr>last_updated := isoformat (c (n + 2))\<rparr>\<rparr>),
       clock = c, ticks = n + 3, faults = []\<rparr>)"
  by (simp add: add_to_queue_Holds)

lemma mark_completed_literal:
  "rid \<noteq> [] \<Longrightarrow>
   mark_completed (Some rid)
     \<lparr>queue_file = q, file_content = Holds d, clock = c, ticks = n, faults = []\<rparr> =
     (case find_request rid (pending_requests d) of
        None \<Rightarrow>
          (Inr (cross_mark @ '' Request '' @ rid @ '' not found in pending requests''),
           \<lparr>queue_file = q, file_content = Holds d, clock = c, ticks = n, faults = []\<rparr>)
      | Some i \<Rightarrow>
          (Inr (check_mark @ '' Request '' @ rid @ '' marked as completed. Remaining pending: '' @
                str_nat (length (pending_requests d) - 1)),
           \<lparr>queue_file = q,
            file_content = Holds
              (d\<lparr>pending_requests := take i (pending_requests d) @ drop (Suc i) (pending_requests d),
                 completed_requests := completed_requests d @
                   [complete_request (isoformat (c n)) (pending_requests d ! i)],
                 metadata := (metadata d)\<lparr>last_updated := isoformat (c (n + 1))\<rparr>\<rparr>),
            clock = c, ticks = n + 2, faults = []\<rparr>))"
proof (cases "find_request rid (pending_requests d)")
  case None
  then have "rid \<notin> request_id ` set (pending_requests d)" by (simp add: find_request_None)
  then show ?thesis if "rid \<noteq> []" using that None by (simp add: mark_completed_not_found)
next
  case (Some i)
  then show ?thesis if "rid \<noteq> []" using that
    by (simp add: mark_completed_found [where i = i and d = d])
qed

lemma get_queue_status_literal:
  "get_queue_status \<lparr>queue_file = q, file_content = Holds d, clock = c, ticks = n, faults = []\<rparr> =
     (Inr (bar_chart @ '' Purchase Queue Status:'' @ [CHR 0x0A] @
           ''   Pending Requests: '' @ str_nat (length (pending_requests d)) @ [CHR 0x0A] @
           ''   Completed Requests: '' @ str_nat (length (completed_requests d)) @ [CHR 0x0A] @
           ''   Last Updated: '' @ last_updated (metadata d) @ [CHR 0x0A]),
      \<lparr>queue_file = q, file_content = Holds d, clock = c, ticks = n, faults = []\<rparr>)"
  by (simp add: get_queue_status_Holds)

lemma get_pending_requests_literal:
  "get_pending_requests py_str
     \<lparr>queue_file = q, file_content = Holds d, clock = c, ticks = n, faults = []\<rparr> =
     (Inr (if pending_requests d = [] then clipboard @ '' No pending purchase requests in queue.''
           else foldl (\<lambda>result request. result @ render_request py_str request)
                  (clipboard @ '' Found '' @ str_nat (length (pending_requests d)) @
                   '' pending purchase request(s):'' @ [CHR 0x0A, CHR 0x0A])
                  (pending_requests d)),
      \<lparr>queue_file = q, file_content = Holds d, clock = c, ticks = n, faults = []\<rparr>)"
  by (simp add: get_pending_requests_Holds)

lemma load_no_file_literal:
  "load_queue \<lparr>queue_file = q, file_content = Missing, clock = c, ticks = n, faults = []\<rparr> =
     (Inr (initial_data (isoformat (c n)) (isoformat (c (Suc n)))),
      \<lparr>queue_file = q,
       file_content = Holds (initial_data (isoformat (c n)) (isoformat (c (Suc n)))),
       clock = c, ticks = Suc (Suc n), faults = []\<rparr>)"
  by (simp add: load_queue_no_document)

lemma fresh_world_literal:
  "fresh_world c =
     \<lparr>queue_file = ''data/purchase_queue.json'',
      file_content = Holds (initial_data (isoformat (c 0)) (isoformat (c 1))),
      clock = c, ticks = 2, faults = []\<rparr>"
  by (simp add: fresh_world_def no_file_world_def tool_init_def initialize_queue_ok)

lemma json_store_literal:
  "json_store =
     \<lparr>queue_file = ''data/purchase_queue.json'',
      file_content = Holds (initial_data ''2025-01-01T12:00:00'' ''2025-01-01T12:00:01''),
      clock = ticking_clock, ticks = 2, faults = []\<rparr>"
  by (simp add: json_store_def tool_init_def initialize_queue_ok isoformat_ticking digit_char_def)

lemmas run_simps = fresh_world_literal add_to_queue_literal mark_completed_literal
  initial_data_def queue_item_def complete_request_def document_def
  payload_a_def payload_b_def payload_c_def

section \<open>What every run keeps\<close>

text \<open>
  Whatever the clock says, every operation keeps the statuses in agreement with the
  lists and the identifiers not empty, so every document that a run reaches from the
  skeleton is well formed. That no identifier stands twice is kept by every
  completion, and by an admission whose new identifier is not yet in the document;
  the clock decides whether it is.
\<close>

lemma well_formed_skeleton: "well_formed (initial_data c u)"
  by (simp add: well_formed_def status_consistent_def identifiers_nonempty_def initial_data_def)

lemma well_formed_admit:
  "well_formed d \<Longrightarrow> rid \<noteq> [] \<Longrightarrow>
   well_formed (d\<lparr>pending_requests := pending_requests d @ [queue_item rid ts x],
                  metadata := m\<rparr>)"
  by (auto simp: well_formed_def status_consistent_def identifiers_nonempty_def queue_item_def)

lemma well_formed_complete:
  assumes "well_formed d" and "i < length (pending_requests d)"
  shows "well_formed
     (d\<lparr>pending_requests := take i (pending_requests d) @ drop (Suc i) (pending_requests d),
        completed_requests := completed_requests d @ [complete_request ts (pending_requests d ! i)],
        metadata := m\<rparr>)"
  using assms
  by (auto simp: well_formed_def status_consistent_def identifiers_nonempty_def
      complete_request_def dest: in_set_takeD in_set_dropD)

lemma perform_world_consistent:
  assumes "world_consistent w"
  shows "world_consistent (perform op w)"
proof -
  from assms have nf: "faults w = []"
    by (simp add: world_consistent_def)
  from nf obtain d w1 where load: "load_queue w = (Inr d, w1)" and nf1: "faults w1 = []"
    and fc1: "file_content w1 = Holds d" and d: "well_formed d"
  proof (cases rule: load_queue_cases)
    case (held d)
    with nf assms show ?thesis by (intro that [of d w]) (simp_all add: world_consistent_def)
  next
    case (skeleton c u w1)
    then show ?thesis by (intro that [of "initial_data c u" w1]) (simp_all add: well_formed_skeleton)
  qed
  have w1: "world_consistent w1"
    using nf1 fc1 d by (simp add: world_consistent_def)
  show ?thesis
  proof (cases op)
    case (Admit x)
    show ?thesis
    proof (cases "x = []")
      case True
      with Admit assms show ?thesis by (simp add: add_to_queue_empty)
    next
      case False
      from add_to_queue_loaded [OF False nf load] d nf1 Admit show ?thesis
        by (simp add: world_consistent_def well_formed_admit)
    qed
  next
    case (Complete rid)
    show ?thesis
    proof (cases "rid = []")
      case True
      with Complete assms show ?thesis by (simp add: mark_completed_empty)
    next
      case False
      note mc = mark_completed_loaded [OF False load nf1]
      show ?thesis
      proof (cases "find_request rid (pending_requests d)")
        case None
        with mc Complete w1 show ?thesis by simp
      next
        case (Some i)
        from find_request_Some [OF Some] have "i < length (pending_requests d)" by simp
        from well_formed_complete [OF d this] mc Some Complete nf1 show ?thesis
          by (simp add: world_consistent_def)
      qed
    qed
  qed
qed

lemma run_world_consistent: "world_consistent w \<Longrightarrow> world_consistent (run ops w)"
  by (induction ops arbitrary: w) (simp_all add: perform_world_consistent)

lemma reachable_well_formed:
  assumes "faults w = []" and "file_content w = Holds (initial_data c u)"
    and "document (run ops w) = Some d"
  shows "well_formed d"
proof -
  from assms(1,2) have "world_consistent w"
    by (auto simp: world_consistent_def well_formed_skeleton)
  then have "world_consistent (run ops w)" by (rule run_world_consistent)
  with assms(3) show ?thesis
    by (auto simp: world_consistent_def document_def split: file_state.splits)
qed

lemma reachable_status_consistent:
  assumes "faults w = []" and "file_content w = Holds (initial_data c u)"
    and "document (run ops w) = Some d"
  shows "status_consistent d"
  using reachable_well_formed [OF assms] by (simp add: well_formed_def)

lemma reachable_identifiers_nonempty:
  assumes "faults w = []" and "file_content w = Holds (initial_data c u)"
    and "document (run ops w) = Some d"
  shows "identifiers_nonempty d"
  using reachable_well_formed [OF assms] by (simp add: well_formed_def)

lemma identifiers_partitioned_complete:
  assumes "identifiers_partitioned d" and "i < length (pending_requests d)"
  shows "identifiers_partitioned
     (d\<lparr>pending_requests := take i (pending_requests d) @ drop (Suc i) (pending_requests d),
        completed_requests := completed_requests d @ [complete_request ts (pending_requests d ! i)],
        metadata := m\<rparr>)"
proof -
  let ?p = "pending_requests d"
  have split: "?p = take i ?p @ ?p ! i # drop (Suc i) ?p"
    using assms(2) by (simp add: id_take_nth_drop)
  have "distinct (map request_id (take i ?p @ ?p ! i # drop (Suc i) ?p @ completed_requests d))"
    using assms(1) split unfolding identifiers_partitioned_def by (metis append_Cons append_assoc)
  then show ?thesis
    by (auto simp: identifiers_partitioned_def complete_request_def)
qed

lemma identifiers_partitioned_admit:
  assumes "identifiers_partitioned d"
    and "rid \<notin> request_id ` set (pending_requests d @ completed_requests d)"
  shows "identifiers_partitioned
     (d\<lparr>pending_requests := pending_requests d @ [queue_item rid ts x], metadata := m\<rparr>)"
  using assms by (auto simp: identifiers_partitioned_def queue_item_def)

subsection \<open>Counting requests\<close>

lemma admit_counts:
  assumes "x \<noteq> []" and "faults w = []" and "file_content w = Holds d"
    and "\<forall>r \<in> set (pending_requests d). request_id r \<noteq> []"
  shows "\<exists>d'. file_content (perform (Admit x) w) = Holds d' \<and>
           faults (perform (Admit x) w) = [] \<and>
           length (pending_requests d') = Suc (length (pending_requests d)) \<and>
           length (completed_requests d') = length (completed_requests d) \<and>
           (\<forall>r \<in> set (pending_requests d'). request_id r \<noteq> [])"
  using assms(2,4) by (simp add: add_to_queue_Holds [OF assms(1-3)] queue_item_def)

lemma complete_counts:
  assumes "rid \<noteq> []" and "faults w = []" and "file_content w = Holds d"
    and "rid \<in> request_id ` set (pending_requests d)"
  shows "\<exists>d'. file_content (perform (Complete rid) w) = Holds d' \<and>
           faults (perform (Complete rid) w) = [] \<and>
           Suc (length (pending_requests d')) = length (pending_requests d) \<and>
           length (completed_requests d') = Suc (length (completed_requests d))"
proof -
  from mark_completed_first_match [OF assms]
  obtain before r after where
    split: "pending_requests d = before @ r # after" and
    res: "mark_completed (Some rid) w =
       (Inr (check_mark @ '' Request '' @ rid @ '' marked as completed. Remaining pending: '' @
             str_nat (length (before @ after))),
        w\<lparr>ticks := ticks w + 2,
          file_content := Holds
            \<lparr>pending_requests = before @ after,
             completed_requests = completed_requests d @
               [complete_request (isoformat (clock w (ticks w))) r],
             metadata = (metadata d)\<lparr>last_updated := isoformat (clock w (ticks w + 1))\<rparr>\<rparr>\<rparr>)"
    by blast
  show ?thesis by (simp add: res split assms(2))
qed

lemma three_admits_one_completion:
  assumes x: "x1 \<noteq> []" "x2 \<noteq> []" "x3 \<noteq> []"
    and w: "faults w = []" "file_content w = Holds (initial_data c u)"
    and d3: "document (run [Admit x1, Admit x2, Admit x3] w) = Some d3"
    and rid: "rid \<in> request_id ` set (pending_requests d3)"
  shows "\<exists>d4. file_content (run [Admit x1, Admit x2, Admit x3, Complete rid] w) = Holds d4 \<and>
           faults (run [Admit x1, Admit x2, Admit x3, Complete rid] w) = [] \<and>
           length (pending_requests d4) = 2 \<and> length (completed_requests d4) = 1"
proof -
  let ?w1 = "perform (Admit x1) w"
  let ?w2 = "perform (Admit x2) ?w1"
  let ?w3 = "perform (Admit x3) ?w2"
  have d0: "\<forall>r \<in> set (pending_requests (initial_data c u :: 'a queue_data)). request_id r \<noteq> []"
    by (simp add: initial_data_def)
  from admit_counts [OF x(1) w d0] obtain d1 where
    1: "file_content ?w1 = Holds d1" "faults ?w1 = []"
       "length (pending_requests d1) = 1" "length (completed_requests d1) = 0"
       "\<forall>r \<in> set (pending_requests d1). request_id r \<noteq> []"
    by (auto simp: initial_data_def)
  from admit_counts [OF x(2) 1(2) 1(1) 1(5)] obtain d2 where
    2: "file_content ?w2 = Holds d2" "faults ?w2 = []"
       "length (pending_requests d2) = 2" "length (completed_requests d2) = 0"
       "\<forall>r \<in> set (pending_requests d2). request_id r \<noteq> []"
    using 1(3,4) by auto
  from admit_counts [OF x(3) 2(2) 2(1) 2(5)] obtain d3' where
    3: "file_content ?w3 = Holds d3'" "faults ?w3 = []"
       "length (pending_requests d3') = 3" "length (completed_requests d3') = 0"
       "\<forall>r \<in> set (pending_requests d3'). request_id r \<noteq> []"
    using 2(3,4) by auto
  have run3: "run [Admit x1, Admit x2, Admit x3] w = ?w3" by simp
  from d3 3(1) have eq: "d3' = d3" by (simp add: run3 document_def)
  from rid 3(5) have ne: "rid \<noteq> []" unfolding eq by auto
  from rid have rid': "rid \<in> request_id ` set (pending_requests d3')" by (simp add: eq)
  from complete_counts [OF ne 3(2) 3(1) rid'] obtain d4 where
    4: "file_content (perform (Complete rid) ?w3) = Holds d4"
       "faults (perform (Complete rid) ?w3) = []"
       "Suc (length (pending_requests d4)) = length (pending_requests d3')"
       "length (completed_requests d4) = Suc (length (completed_requests d3'))"
    by blast
  have run4: "run [Admit x1, Admit x2, Admit x3, Complete rid] w = perform (Complete rid) ?w3"
    by simp
  from 4 3(3,4) show ?thesis unfolding run4 by auto
qed

section \<open>Identifiers that collide\<close>

text \<open>
  C1. The claim: for every sequence of \<^verbatim>\<open>add_to_queue\<close> calls the returned request
  identifiers are pairwise distinct, also when two calls fall in the same clock
  second. \<^verbatim>\<open>_generate_request_id\<close> prints the clock down to the second and checks
  nothing, although its docstring promises a unique identifier. The theorem runs the
  code where the claim fails: on a fresh store two admissions read the clock at two
  different instants of the second 12:00:00, and both calls return the identifier
  \<^verbatim>\<open>PQ_20250101_120000\<close>, which then stands twice in \<^verbatim>\<open>pending_requests\<close>.
\<close>

theorem admits_in_one_second_share_identifier:
  "same_second_clock 2 \<noteq> same_second_clock 5 \<and>
   fst (add_to_queue (Some payload_a) (fresh_world same_second_clock)) =
     Inr (check_mark @ '' Purchase request PQ_20250101_120000 added to queue successfully. Total pending requests: 1'') \<and>
   fst (add_to_queue (Some payload_b) (run [Admit payload_a] (fresh_world same_second_clock))) =
     Inr (check_mark @ '' Purchase request PQ_20250101_120000 added to queue successfully. Total pending requests: 2'') \<and>
   map_option (map request_id \<circ> pending_requests)
     (document (run [Admit payload_a, Admit payload_b] (fresh_world same_second_clock))) =
     Some [''PQ_20250101_120000'', ''PQ_20250101_120000'']"
  by (simp add: run_simps strftime_id_same_second str_nat_small digit_char_def)
    (simp add: same_second_clock_def)

text \<open>
  C2. The claim: in every document reachable by admissions and completions from the
  empty one, each identifier stands in exactly one of the two lists and only once
  there, every completed request has status \<^verbatim>\<open>completed\<close> and a \<^verbatim>\<open>completed_at\<close>, and
  every pending request has status \<^verbatim>\<open>pending\<close> and none. The part about status
  holds on every reachable document (\<open>reachable_status_consistent\<close> above). The part
  about identifiers is kept by every completion and by every admission whose new
  identifier is not yet in the document (\<open>identifiers_partitioned_complete\<close>,
  \<open>identifiers_partitioned_admit\<close>), and fails through the defect of C1. The theorem
  runs the code: after an admission, the completion of the admitted request and a
  second admission, all within one clock second, the same identifier is in
  \<^verbatim>\<open>pending_requests\<close> and in \<^verbatim>\<open>completed_requests\<close>; after three admissions within
  one second it is three times in \<^verbatim>\<open>pending_requests\<close>.
\<close>

theorem shared_identifier_breaks_partition:
  "map_option (map request_id \<circ> pending_requests)
     (document (run [Admit payload_a, Complete ''PQ_20250101_120000'', Admit payload_b]
        (fresh_world same_second_clock))) = Some [''PQ_20250101_120000''] \<and>
   map_option (map request_id \<circ> completed_requests)
     (document (run [Admit payload_a, Complete ''PQ_20250101_120000'', Admit payload_b]
        (fresh_world same_second_clock))) = Some [''PQ_20250101_120000''] \<and>
   map_option (map request_id \<circ> pending_requests)
     (document (run [Admit payload_a, Admit payload_b, Admit payload_c]
        (fresh_world same_second_clock))) =
     Some [''PQ_20250101_120000'', ''PQ_20250101_120000'', ''PQ_20250101_120000'']"
  by (simp add: run_simps strftime_id_same_second)

text \<open>
  C4. The claim: \<^verbatim>\<open>mark_completed\<close> with an identifier that matches no pending request
  returns the not-found text and leaves the document as it is (\<open>mark_completed_not_found\<close>
  above proves this part); in particular a second call with an identifier that has
  just been completed is not found. The second part needs the identifier to occur
  once (\<open>mark_completed_once\<close> above), and fails through the defect of C1. The theorem
  runs the code: two admissions within one second share an identifier, the first
  completion moves the first of them, and the second completion with the same
  identifier succeeds again and moves the other request.
\<close>

theorem second_complete_finds_shared_identifier:
  "fst (mark_completed (Some ''PQ_20250101_120000'')
     (run [Admit payload_a, Admit payload_b] (fresh_world same_second_clock))) =
     Inr (check_mark @ '' Request PQ_20250101_120000 marked as completed. Remaining pending: 1'') \<and>
   fst (mark_completed (Some ''PQ_20250101_120000'')
     (run [Admit payload_a, Admit payload_b, Complete ''PQ_20250101_120000'']
        (fresh_world same_second_clock))) =
     Inr (check_mark @ '' Request PQ_20250101_120000 marked as completed. Remaining pending: 0'') \<and>
   map_option (map validation_data \<circ> completed_requests)
     (document (run [Admit payload_a, Admit payload_b, Complete ''PQ_20250101_120000'']
        (fresh_world same_second_clock))) = Some [payload_a] \<and>
   map_option (map validation_data \<circ> completed_requests)
     (document (run [Admit payload_a, Admit payload_b, Complete ''PQ_20250101_120000'',
                     Complete ''PQ_20250101_120000''] (fresh_world same_second_clock))) =
     Some [payload_a, payload_b]"
  by (simp add: run_simps strftime_id_same_second str_nat_small digit_char_def)

text \<open>
  C5. The claim: \<^verbatim>\<open>add_to_queue\<close> refuses an empty payload and leaves the document
  as it is; for every payload that is not empty it generates a fresh identifier,
  appends a request with status \<^verbatim>\<open>pending\<close> to the end of \<^verbatim>\<open>pending_requests\<close>, writes
  the document and returns the identifier and the new count. The refusal, the
  appending, the writing and the returned text are as claimed
  (\<open>add_to_queue_appends\<close> above). The identifier is not fresh: it is the clock
  printed down to the second, the defect of C1, and \<^verbatim>\<open>add_to_queue\<close> does not look
  whether the document has it already. The theorem runs the code: within one clock
  second, the admission that follows an admission and its completion returns the
  identifier of the completed request, and the admission that follows two admissions
  returns the identifier that both pending requests have.
\<close>

theorem admission_returns_identifier_in_use:
  "map_option (map request_id \<circ> completed_requests)
     (document (run [Admit payload_a, Complete ''PQ_20250101_120000'']
        (fresh_world same_second_clock))) = Some [''PQ_20250101_120000''] \<and>
   fst (add_to_queue (Some payload_b)
     (run [Admit payload_a, Complete ''PQ_20250101_120000''] (fresh_world same_second_clock))) =
     Inr (check_mark @ '' Purchase request PQ_20250101_120000 added to queue successfully. Total pending requests: 1'') \<and>
   map_option (map request_id \<circ> pending_requests)
     (document (run [Admit payload_a, Admit payload_b] (fresh_world same_second_clock))) =
     Some [''PQ_20250101_120000'', ''PQ_20250101_120000''] \<and>
   fst (add_to_queue (Some payload_c)
     (run [Admit payload_a, Admit payload_b] (fresh_world same_second_clock))) =
     Inr (check_mark @ '' Purchase request PQ_20250101_120000 added to queue successfully. Total pending requests: 3'')"
  by (simp add: run_simps strftime_id_same_second str_nat_small digit_char_def)

section \<open>What a completion does\<close>

text \<open>
  C3. In a world where no file operation fails and the file holds the document \<open>d\<close>,
  \<^verbatim>\<open>mark_completed\<close> with an identifier that is not empty and occurs in
  \<^verbatim>\<open>pending_requests\<close> takes the first request \<open>r\<close> with that identifier (no request
  before it has it), sets its status to \<^verbatim>\<open>completed\<close>, stamps \<^verbatim>\<open>completed_at\<close> with the
  clock, appends it to the end of \<^verbatim>\<open>completed_requests\<close>, removes it from
  \<^verbatim>\<open>pending_requests\<close>, and writes the document. The empty identifier is the one that
  the guard \<^verbatim>\<open>if not request_id\<close> refuses before the search; it occurs in no document
  that the store has made, as every identifier that \<^verbatim>\<open>add_to_queue\<close> generates starts
  with \<^verbatim>\<open>PQ_\<close> (\<open>reachable_identifiers_nonempty\<close> above).
\<close>

theorem mark_completed_moves_first_match:
  assumes "rid \<noteq> []" and "faults w = []" and "file_content w = Holds d"
    and "rid \<in> request_id ` set (pending_requests d)"
  shows "\<exists>before r after.
     pending_requests d = before @ r # after \<and> request_id r = rid \<and>
     (\<forall>x \<in> set before. request_id x \<noteq> rid) \<and>
     mark_completed (Some rid) w =
       (Inr (check_mark @ '' Request '' @ rid @ '' marked as completed. Remaining pending: '' @
             str_nat (length (before @ after))),
        w\<lparr>ticks := ticks w + 2,
          file_content := Holds
            \<lparr>pending_requests = before @ after,
             completed_requests = completed_requests d @
               [r\<lparr>status := ''completed'',
                  completed_at := Some (isoformat (clock w (ticks w))),
                  processed_by := Some ''purchase_order_agent''\<rparr>],
             metadata = (metadata d)\<lparr>last_updated := isoformat (clock w (ticks w + 1))\<rparr>\<rparr>\<rparr>)"
  using mark_completed_first_match [OF assms] by (simp add: complete_request_def)

text \<open>
  The theorem at work on \<open>example_world\<close>, where two pending requests share the
  identifier: the first of the two is the one that moves.
\<close>

theorem mark_completed_moves_first_match_witness:
  "''PQ_20250101_115901'' \<noteq> [] \<and> faults example_world = [] \<and>
   file_content example_world = Holds example_doc \<and>
   ''PQ_20250101_115901'' \<in> request_id ` set (pending_requests example_doc) \<and>
   (\<exists>before r after.
     pending_requests example_doc = before @ r # after \<and>
     request_id r = ''PQ_20250101_115901'' \<and>
     (\<forall>x \<in> set before. request_id x \<noteq> ''PQ_20250101_115901'') \<and>
     mark_completed (Some ''PQ_20250101_115901'') example_world =
       (Inr (check_mark @ '' Request '' @ ''PQ_20250101_115901'' @
             '' marked as completed. Remaining pending: '' @ str_nat (length (before @ after))),
        example_world\<lparr>ticks := ticks example_world + 2,
          file_content := Holds
            \<lparr>pending_requests = before @ after,
             completed_requests = completed_requests example_doc @
               [r\<lparr>status := ''completed'',
                  completed_at := Some (isoformat (clock example_world (ticks example_world))),
                  processed_by := Some ''purchase_order_agent''\<rparr>],
             metadata = (metadata example_doc)
               \<lparr>last_updated := isoformat (clock example_world (ticks example_world + 1))\<rparr>\<rparr>\<rparr>)) \<and>
   fst (mark_completed (Some ''PQ_20250101_115901'') example_world) =
     Inr (check_mark @ '' Request PQ_20250101_115901 marked as completed. Remaining pending: 2'') \<and>
   document (snd (mark_completed (Some ''PQ_20250101_115901'') example_world)) =
     Some \<lparr>pending_requests =
             [queue_item ''PQ_20250101_115900'' ''2025-01-01T11:59:00.250000'' payload_a,
              queue_item ''PQ_20250101_115901'' ''2025-01-01T11:59:01.900000'' payload_c],
           completed_requests =
             [(queue_item ''PQ_20250101_115901'' ''2025-01-01T11:59:01.100000'' payload_b)
                \<lparr>status := ''completed'', completed_at := Some ''2025-01-01T12:00:00'',
                 processed_by := Some ''purchase_order_agent''\<rparr>],
           metadata = \<lparr>created_at = ''2025-01-01T11:58:00'',
                       last_updated = ''2025-01-01T12:00:01''\<rparr>\<rparr>"
proof -
  have 1: "''PQ_20250101_115901'' \<noteq> []" by simp
  have 2: "faults example_world = []" by (simp add: example_world_def)
  have 3: "file_content example_world = Holds example_doc" by (simp add: example_world_def)
  have 4: "''PQ_20250101_115901'' \<in> request_id ` set (pending_requests example_doc)"
    by (simp add: example_doc_def queue_item_def)
  have 5: "fst (mark_completed (Some ''PQ_20250101_115901'') example_world) =
     Inr (check_mark @ '' Request PQ_20250101_115901 marked as completed. Remaining pending: 2'')"
    by (simp add: example_world_def example_doc_def mark_completed_literal queue_item_def
        str_nat_small digit_char_def)
  have 6: "document (snd (mark_completed (Some ''PQ_20250101_115901'') example_world)) =
     Some \<lparr>pending_requests =
             [queue_item ''PQ_20250101_115900'' ''2025-01-01T11:59:00.250000'' payload_a,
              queue_item ''PQ_20250101_115901'' ''2025-01-01T11:59:01.900000'' payload_c],
           completed_requests =
             [(queue_item ''PQ_20250101_115901'' ''2025-01-01T11:59:01.100000'' payload_b)
                \<lparr>status := ''completed'', completed_at := Some ''2025-01-01T12:00:00'',
                 processed_by := Some ''purchase_order_agent''\<rparr>],
           metadata = \<lparr>created_at = ''2025-01-01T11:58:00'',
                       last_updated = ''2025-01-01T12:00:01''\<rparr>\<rparr>"
    by (simp add: example_world_def example_doc_def mark_completed_literal queue_item_def
        complete_request_def document_def isoformat_ticking digit_char_def)
  from mark_completed_moves_first_match [OF 1 2 3 4] 1 2 3 4 5 6 show ?thesis by blast
qed

section \<open>What an operation leaves alone\<close>

text \<open>
  C10. A successful \<^verbatim>\<open>mark_completed\<close> changes, in the request it moves, only
  \<^verbatim>\<open>status\<close>, \<^verbatim>\<open>completed_at\<close> and \<^verbatim>\<open>processed_by\<close>; the identifier, the creation
  time, the payload and \<^verbatim>\<open>created_by\<close> stay. The other pending requests keep their
  order, the requests completed before stay as they were, and of the metadata only
  \<^verbatim>\<open>last_updated\<close> changes. A successful \<^verbatim>\<open>add_to_queue\<close> leaves the completed
  requests and the pending requests it found alone and changes of the metadata only
  \<^verbatim>\<open>last_updated\<close>.
\<close>

theorem complete_and_admit_frame:
  "(rid \<noteq> [] \<and> faults w = [] \<and> file_content w = Holds d \<and>
    rid \<in> request_id ` set (pending_requests d) \<longrightarrow>
      (\<exists>d' before r after r'.
         file_content (snd (mark_completed (Some rid) w)) = Holds d' \<and>
         pending_requests d = before @ r # after \<and>
         pending_requests d' = before @ after \<and>
         completed_requests d' = completed_requests d @ [r'] \<and>
         (\<exists>s c p. r' = r\<lparr>status := s, completed_at := c, processed_by := p\<rparr>) \<and>
         request_id r' = request_id r \<and> timestamp r' = timestamp r \<and>
         validation_data r' = validation_data r \<and> created_by r' = created_by r \<and>
         (\<exists>u. metadata d' = (metadata d)\<lparr>last_updated := u\<rparr>) \<and>
         created_at (metadata d') = created_at (metadata d))) \<and>
   (data \<noteq> [] \<and> faults w = [] \<and> file_content w = Holds d \<longrightarrow>
      (\<exists>d' item.
         file_content (snd (add_to_queue (Some data) w)) = Holds d' \<and>
         pending_requests d' = pending_requests d @ [item] \<and>
         completed_requests d' = completed_requests d \<and>
         (\<exists>u. metadata d' = (metadata d)\<lparr>last_updated := u\<rparr>) \<and>
         created_at (metadata d') = created_at (metadata d)))"
proof (intro conjI impI)
  assume a: "rid \<noteq> [] \<and> faults w = [] \<and> file_content w = Holds d \<and>
    rid \<in> request_id ` set (pending_requests d)"
  then obtain before r after where
    split: "pending_requests d = before @ r # after" and
    res: "mark_completed (Some rid) w =
       (Inr (check_mark @ '' Request '' @ rid @ '' marked as completed. Remaining pending: '' @
             str_nat (length (before @ after))),
        w\<lparr>ticks := ticks w + 2,
          file_content := Holds
            \<lparr>pending_requests = before @ after,
             completed_requests = completed_requests d @
               [complete_request (isoformat (clock w (ticks w))) r],
             metadata = (metadata d)\<lparr>last_updated := isoformat (clock w (ticks w + 1))\<rparr>\<rparr>\<rparr>)"
    using mark_completed_first_match [of rid w d] by blast
  let ?r' = "complete_request (isoformat (clock w (ticks w))) r"
  let ?d' = "\<lparr>pending_requests = before @ after,
             completed_requests = completed_requests d @ [?r'],
             metadata = (metadata d)\<lparr>last_updated := isoformat (clock w (ticks w + 1))\<rparr>\<rparr>"
  have "file_content (snd (mark_completed (Some rid) w)) = Holds ?d'"
    by (simp add: res)
  moreover have "\<exists>s c p. ?r' = r\<lparr>status := s, completed_at := c, processed_by := p\<rparr>"
    unfolding complete_request_def by blast
  moreover have "request_id ?r' = request_id r \<and> timestamp ?r' = timestamp r \<and>
         validation_data ?r' = validation_data r \<and> created_by ?r' = created_by r"
    by (simp add: complete_request_def)
  moreover have "\<exists>u. metadata ?d' = (metadata d)\<lparr>last_updated := u\<rparr>"
    by auto
  moreover have "created_at (metadata ?d') = created_at (metadata d)"
    by simp
  moreover have "pending_requests ?d' = before @ after"
    and "completed_requests ?d' = completed_requests d @ [?r']"
    by simp_all
  ultimately show "\<exists>d' before r after r'.
         file_content (snd (mark_completed (Some rid) w)) = Holds d' \<and>
         pending_requests d = before @ r # after \<and>
         pending_requests d' = before @ after \<and>
         completed_requests d' = completed_requests d @ [r'] \<and>
         (\<exists>s c p. r' = r\<lparr>status := s, completed_at := c, processed_by := p\<rparr>) \<and>
         request_id r' = request_id r \<and> timestamp r' = timestamp r \<and>
         validation_data r' = validation_data r \<and> created_by r' = created_by r \<and>
         (\<exists>u. metadata d' = (metadata d)\<lparr>last_updated := u\<rparr>) \<and>
         created_at (metadata d') = created_at (metadata d)"
    using split by blast
next
  assume a: "data \<noteq> [] \<and> faults w = [] \<and> file_content w = Holds d"
  let ?item = "queue_item (''PQ_'' @ strftime_id (clock w (ticks w)))
                   (isoformat (clock w (ticks w + 1))) data"
  let ?d' = "d\<lparr>pending_requests := pending_requests d @ [?item],
             metadata := (metadata d)\<lparr>last_updated := isoformat (clock w (ticks w + 2))\<rparr>\<rparr>"
  from a have "file_content (snd (add_to_queue (Some data) w)) = Holds ?d'"
    by (simp add: add_to_queue_Holds)
  moreover have "pending_requests ?d' = pending_requests d @ [?item]"
    and "completed_requests ?d' = completed_requests d"
    and "created_at (metadata ?d') = created_at (metadata d)"
    by simp_all
  moreover have "\<exists>u. metadata ?d' = (metadata d)\<lparr>last_updated := u\<rparr>"
    by auto
  ultimately show "\<exists>d' item.
         file_content (snd (add_to_queue (Some data) w)) = Holds d' \<and>
         pending_requests d' = pending_requests d @ [item] \<and>
         completed_requests d' = completed_requests d \<and>
         (\<exists>u. metadata d' = (metadata d)\<lparr>last_updated := u\<rparr>) \<and>
         created_at (metadata d') = created_at (metadata d)"
    by blast
qed

text \<open>
  The theorem at work on \<open>example_world\<close>: a completion of the identifier shared by
  two pending requests, and an admission of \<open>payload_c\<close>.
\<close>

theorem complete_and_admit_frame_witness:
  "''PQ_20250101_115901'' \<noteq> [] \<and> faults example_world = [] \<and>
   file_content example_world = Holds example_doc \<and>
   ''PQ_20250101_115901'' \<in> request_id ` set (pending_requests example_doc) \<and>
   (\<exists>d' before r after r'.
      file_content (snd (mark_completed (Some ''PQ_20250101_115901'') example_world)) = Holds d' \<and>
      pending_requests example_doc = before @ r # after \<and>
      pending_requests d' = before @ after \<and>
      completed_requests d' = completed_requests example_doc @ [r'] \<and>
      (\<exists>s c p. r' = r\<lparr>status := s, completed_at := c, processed_by := p\<rparr>) \<and>
      request_id r' = request_id r \<and> timestamp r' = timestamp r \<and>
      validation_data r' = validation_data r \<and> created_by r' = created_by r \<and>
      (\<exists>u. metadata d' = (metadata example_doc)\<lparr>last_updated := u\<rparr>) \<and>
      created_at (metadata d') = created_at (metadata example_doc)) \<and>
   payload_c \<noteq> [] \<and>
   (\<exists>d' item.
      file_content (snd (add_to_queue (Some payload_c) example_world)) = Holds d' \<and>
      pending_requests d' = pending_requests example_doc @ [item] \<and>
      completed_requests d' = completed_requests example_doc \<and>
      (\<exists>u. metadata d' = (metadata example_doc)\<lparr>last_updated := u\<rparr>) \<and>
      created_at (metadata d') = created_at (metadata example_doc))"
proof -
  have 1: "''PQ_20250101_115901'' \<noteq> []" by simp
  have 2: "faults example_world = []" by (simp add: example_world_def)
  have 3: "file_content example_world = Holds example_doc" by (simp add: example_world_def)
  have 4: "''PQ_20250101_115901'' \<in> request_id ` set (pending_requests example_doc)"
    by (simp add: example_doc_def queue_item_def)
  have 5: "payload_c \<noteq> []" by (simp add: payload_c_def)
  from complete_and_admit_frame
    [of "''PQ_20250101_115901''" example_world example_doc payload_c] 1 2 3 4 5
  show ?thesis by blast
qed

section \<open>Loading the document\<close>

text \<open>
  C6. The claim: when loading the document fails, the file being missing or
  unreadable or corrupt, \<^verbatim>\<open>_load_queue\<close> writes an empty skeleton and reads once more,
  and a failure of that second read reaches the caller as an error result. The
  handler of \<^verbatim>\<open>_load_queue\<close> names two exceptions only,
  \<^verbatim>\<open>except (FileNotFoundError, json.JSONDecodeError)\<close>. A read that fails in another
  way (a \<^verbatim>\<open>PermissionError\<close> of \<^verbatim>\<open>open\<close>, a \<^verbatim>\<open>UnicodeDecodeError\<close> on bytes that are
  no text) is not recovered: in \<open>unreadable_world\<close> the file holds \<open>example_doc\<close> and
  the read raises a permission error; \<^verbatim>\<open>_load_queue\<close> raises it at once, reads the
  clock not at all, writes no skeleton and reads no second time, and \<^verbatim>\<open>manage_queue\<close>
  returns the error text.
\<close>

theorem unreadable_file_is_not_reinitialized:
  "load_queue unreadable_world = (Inl permission_denied, unreadable_world\<lparr>faults := []\<rparr>) \<and>
   file_content (snd (load_queue unreadable_world)) = Holds example_doc \<and>
   ticks (snd (load_queue unreadable_world)) = 0 \<and>
   manage_queue (\<lambda>s. s) ''get_status'' None None unreadable_world =
     (''Error in PurchaseQueueTool: [Errno 13] Permission denied: '' @ [CHR 0x27] @
      ''data/purchase_queue.json'' @ [CHR 0x27], unreadable_world\<lparr>faults := []\<rparr>)"
proof -
  have f: "fault_at unreadable_world 0 =
      Some (OtherException (''[Errno 13] Permission denied: '' @ [CHR 0x27] @
                     ''data/purchase_queue.json'' @ [CHR 0x27]))"
    by (simp add: unreadable_world_def fault_at_def permission_denied_def)
  have l: "load_queue unreadable_world = (Inl permission_denied, unreadable_world\<lparr>faults := []\<rparr>)"
    using load_queue_other_error [OF f]
    by (simp add: permission_denied_def) (simp add: unreadable_world_def)
  from manage_queue_load_error(2) [OF l, of "\<lambda>s. s" None None] l
  show ?thesis
    by (simp add: permission_denied_def) (simp add: unreadable_world_def)
qed

text \<open>
  C6 as amended. When the first read raises \<^verbatim>\<open>FileNotFoundError\<close> or
  \<^verbatim>\<open>JSONDecodeError\<close> (\<open>load_recovers\<close>) and the skeleton can be written,
  \<^verbatim>\<open>_load_queue\<close> writes the skeleton, stamped with two clock readings, and reads
  exactly once more: three file operations in all, and the outcome of the third is
  the outcome of the load. When that read fails with \<open>e\<close>, every action of
  \<^verbatim>\<open>manage_queue\<close> that loads the document returns the error text of \<open>e\<close>. When the
  first read raises anything else, \<^verbatim>\<open>_load_queue\<close> raises it after that one read and
  the file is as before.
\<close>

theorem load_queue_recovers_once:
  "(fst (read_queue_file w) = Inl e0 \<and> load_recovers e0 \<and> fault_at w 1 = None \<longrightarrow>
     load_queue w =
       ((case fault_at w 2 of
           None \<Rightarrow> Inr (initial_data (isoformat (clock w (ticks w)))
                          (isoformat (clock w (ticks w + 1))))
         | Some e \<Rightarrow> Inl e),
        w\<lparr>ticks := ticks w + 2, faults := drop 3 (faults w),
          file_content := Holds (initial_data (isoformat (clock w (ticks w)))
                                   (isoformat (clock w (ticks w + 1))))\<rparr>) \<and>
     (\<forall>e. fault_at w 2 = Some e \<longrightarrow>
        fst (manage_queue py_str ''get_pending'' rd rid w) =
          ''Error in PurchaseQueueTool: '' @ exn_str e \<and>
        fst (manage_queue py_str ''get_status'' rd rid w) =
          ''Error in PurchaseQueueTool: '' @ exn_str e \<and>
        (data \<noteq> [] \<longrightarrow> fst (manage_queue py_str ''add_to_queue'' (Some data) rid w) =
          ''Error in PurchaseQueueTool: '' @ exn_str e) \<and>
        (r \<noteq> [] \<longrightarrow> fst (manage_queue py_str ''mark_completed'' rd (Some r) w) =
          ''Error in PurchaseQueueTool: '' @ exn_str e))) \<and>
   (fst (read_queue_file w) = Inl e0 \<and> \<not> load_recovers e0 \<longrightarrow>
     load_queue w = (Inl e0, w\<lparr>faults := tl (faults w)\<rparr>))"
proof (intro conjI impI allI)
  assume a: "fst (read_queue_file w) = Inl e0 \<and> load_recovers e0 \<and> fault_at w 1 = None"
  then show l: "load_queue w =
       ((case fault_at w 2 of
           None \<Rightarrow> Inr (initial_data (isoformat (clock w (ticks w)))
                          (isoformat (clock w (ticks w + 1))))
         | Some e \<Rightarrow> Inl e),
        w\<lparr>ticks := ticks w + 2, faults := drop 3 (faults w),
          file_content := Holds (initial_data (isoformat (clock w (ticks w)))
                                   (isoformat (clock w (ticks w + 1))))\<rparr>)"
    using load_queue_recovery_raised [of w e0] by blast
  fix e assume e: "fault_at w 2 = Some e"
  with l obtain w' where l': "load_queue w = (Inl e, w')" by simp
  show "fst (manage_queue py_str ''get_pending'' rd rid w) =
        ''Error in PurchaseQueueTool: '' @ exn_str e"
    by (simp add: manage_queue_load_error(1) [OF l'])
  show "fst (manage_queue py_str ''get_status'' rd rid w) =
        ''Error in PurchaseQueueTool: '' @ exn_str e"
    by (simp add: manage_queue_load_error(2) [OF l'])
  show "fst (manage_queue py_str ''add_to_queue'' (Some data) rid w) =
        ''Error in PurchaseQueueTool: '' @ exn_str e" if "data \<noteq> []"
    by (simp add: manage_queue_load_error(3) [OF l' that])
  show "fst (manage_queue py_str ''mark_completed'' rd (Some r) w) =
        ''Error in PurchaseQueueTool: '' @ exn_str e" if "r \<noteq> []"
    by (simp add: manage_queue_load_error(4) [OF l' that])
next
  assume "fst (read_queue_file w) = Inl e0 \<and> \<not> load_recovers e0"
  then show "load_queue w = (Inl e0, w\<lparr>faults := tl (faults w)\<rparr>)"
    by (auto simp: load_queue_def read_queue_file_fault)
qed

text \<open>
  The theorem at work: in \<open>failing_retry_world\<close> there is no file, the skeleton is
  written and the second read is refused; in \<open>unreadable_world\<close> the first read is
  refused.
\<close>

theorem load_queue_recovers_once_witness:
  "fst (read_queue_file failing_retry_world) =
     Inl (FileNotFoundError (''[Errno 2] No such file or directory: '' @ [CHR 0x27] @
                             ''data/purchase_queue.json'' @ [CHR 0x27])) \<and>
   load_recovers (FileNotFoundError (''[Errno 2] No such file or directory: '' @ [CHR 0x27] @
                             ''data/purchase_queue.json'' @ [CHR 0x27])) \<and>
   fault_at failing_retry_world 1 = None \<and>
   fault_at failing_retry_world 2 = Some permission_denied \<and>
   load_queue failing_retry_world =
     (Inl permission_denied,
      \<lparr>queue_file = ''data/purchase_queue.json'',
       file_content = Holds (initial_data ''2025-01-01T12:00:00'' ''2025-01-01T12:00:01''),
       clock = ticking_clock, ticks = 2, faults = []\<rparr>) \<and>
   fst (manage_queue (\<lambda>s. s) ''get_status'' None None failing_retry_world) =
     ''Error in PurchaseQueueTool: [Errno 13] Permission denied: '' @ [CHR 0x27] @
     ''data/purchase_queue.json'' @ [CHR 0x27] \<and>
   fst (read_queue_file unreadable_world) = Inl permission_denied \<and>
   \<not> load_recovers permission_denied \<and>
   load_queue unreadable_world =
     (Inl permission_denied,
      \<lparr>queue_file = ''data/purchase_queue.json'', file_content = Holds example_doc,
       clock = ticking_clock, ticks = 0, faults = []\<rparr>)"
proof -
  let ?nf = "FileNotFoundError (''[Errno 2] No such file or directory: '' @ [CHR 0x27] @
                             ''data/purchase_queue.json'' @ [CHR 0x27])"
  have 1: "fst (read_queue_file failing_retry_world) = Inl ?nf"
    by (simp add: failing_retry_world_def no_file_world_def read_queue_file_fault fault_at_def)
  have 2: "load_recovers ?nf" by simp
  have 3: "fault_at failing_retry_world 1 = None"
    by (simp add: failing_retry_world_def no_file_world_def fault_at_def)
  have 4: "fault_at failing_retry_world 2 = Some permission_denied"
    by (simp add: failing_retry_world_def no_file_world_def fault_at_def)
  have 5: "fst (read_queue_file unreadable_world) = Inl permission_denied"
    by (simp add: unreadable_world_def read_queue_file_fault fault_at_def)
  have 6: "\<not> load_recovers permission_denied" by (simp add: permission_denied_def)
  from load_queue_recovers_once [of failing_retry_world ?nf "\<lambda>s. s" None None "[]" "[]"]
    load_queue_recovers_once [of unreadable_world permission_denied "\<lambda>s. s" None None "[]" "[]"]
    1 2 3 4 5 6
  show ?thesis
    by (simp add: failing_retry_world_def no_file_world_def unreadable_world_def
        isoformat_ticking digit_char_def) (simp add: permission_denied_def)
qed

section \<open>The dispatcher\<close>

text \<open>
  C7. \<^verbatim>\<open>manage_queue\<close> returns text on every path. In the model it has no exception
  in its type, while the four operations it calls have; the theorem says what text it
  returns. An action that is none of the four names returns the unknown-action text
  with the offending name in quotes, and the world is untouched. When the operation
  that the action names raises \<open>e\<close>, the handler \<^verbatim>\<open>except Exception\<close> returns
  \<^verbatim>\<open>Error in PurchaseQueueTool:\<close> followed by \<^verbatim>\<open>str(e)\<close>; when it returns text,
  \<^verbatim>\<open>manage_queue\<close> returns that text. The exceptions of the model are those of the
  file operations; \<^verbatim>\<open>KeyboardInterrupt\<close> and the like, which are no
  \<^verbatim>\<open>Exception\<close>, are outside it.
\<close>

theorem manage_queue_returns_text:
  "(action \<noteq> ''add_to_queue'' \<and> action \<noteq> ''get_pending'' \<and>
    action \<noteq> ''mark_completed'' \<and> action \<noteq> ''get_status'' \<longrightarrow>
      manage_queue py_str action rd rid w =
        (''Error: Unknown action '' @ [CHR 0x27] @ action @ [CHR 0x27] @
         ''. Available actions: add_to_queue, get_pending, mark_completed, get_status'', w)) \<and>
   (\<forall>e w'. add_to_queue rd w = (Inl e, w') \<longrightarrow>
      manage_queue py_str ''add_to_queue'' rd rid w =
        (''Error in PurchaseQueueTool: '' @ exn_str e, w')) \<and>
   (\<forall>e w'. get_pending_requests py_str w = (Inl e, w') \<longrightarrow>
      manage_queue py_str ''get_pending'' rd rid w =
        (''Error in PurchaseQueueTool: '' @ exn_str e, w')) \<and>
   (\<forall>e w'. mark_completed rid w = (Inl e, w') \<longrightarrow>
      manage_queue py_str ''mark_completed'' rd rid w =
        (''Error in PurchaseQueueTool: '' @ exn_str e, w')) \<and>
   (\<forall>e w'. get_queue_status w = (Inl e, w') \<longrightarrow>
      manage_queue py_str ''get_status'' rd rid w =
        (''Error in PurchaseQueueTool: '' @ exn_str e, w')) \<and>
   (\<forall>s w'. add_to_queue rd w = (Inr s, w') \<longrightarrow>
      manage_queue py_str ''add_to_queue'' rd rid w = (s, w')) \<and>
   (\<forall>s w'. get_pending_requests py_str w = (Inr s, w') \<longrightarrow>
      manage_queue py_str ''get_pending'' rd rid w = (s, w')) \<and>
   (\<forall>s w'. mark_completed rid w = (Inr s, w') \<longrightarrow>
      manage_queue py_str ''mark_completed'' rd rid w = (s, w')) \<and>
   (\<forall>s w'. get_queue_status w = (Inr s, w') \<longrightarrow>
      manage_queue py_str ''get_status'' rd rid w = (s, w'))"
  by (simp add: manage_queue_def run_action_def)

text \<open>
  The theorem at work: an unknown action, a status request on a file that cannot be
  read, and a completion without an identifier.
\<close>

theorem manage_queue_returns_text_witness:
  "''delete_all'' \<noteq> ''add_to_queue'' \<and> ''delete_all'' \<noteq> ''get_pending'' \<and>
   ''delete_all'' \<noteq> ''mark_completed'' \<and> ''delete_all'' \<noteq> ''get_status'' \<and>
   manage_queue (\<lambda>s. s) ''delete_all'' (Some payload_a) (Some ''PQ_20250101_115900'') example_world =
     (''Error: Unknown action '' @ [CHR 0x27] @ ''delete_all'' @ [CHR 0x27] @
      ''. Available actions: add_to_queue, get_pending, mark_completed, get_status'',
      example_world) \<and>
   get_queue_status unreadable_world = (Inl permission_denied, unreadable_world\<lparr>faults := []\<rparr>) \<and>
   manage_queue (\<lambda>s. s) ''get_status'' None None unreadable_world =
     (''Error in PurchaseQueueTool: [Errno 13] Permission denied: '' @ [CHR 0x27] @
      ''data/purchase_queue.json'' @ [CHR 0x27], unreadable_world\<lparr>faults := []\<rparr>) \<and>
   mark_completed None example_world = (Inr ''Error: No request ID provided'', example_world) \<and>
   manage_queue (\<lambda>s. s) ''mark_completed'' None None example_world =
     (''Error: No request ID provided'', example_world)"
proof -
  have f: "fault_at unreadable_world 0 =
      Some (OtherException (''[Errno 13] Permission denied: '' @ [CHR 0x27] @
                     ''data/purchase_queue.json'' @ [CHR 0x27]))"
    by (simp add: unreadable_world_def fault_at_def permission_denied_def)
  have l: "load_queue unreadable_world = (Inl permission_denied, unreadable_world\<lparr>faults := []\<rparr>)"
    using load_queue_other_error [OF f]
    by (simp add: permission_denied_def) (simp add: unreadable_world_def)
  have g: "get_queue_status unreadable_world =
      (Inl permission_denied, unreadable_world\<lparr>faults := []\<rparr>)"
    by (simp add: get_queue_status_def l)
  have m: "mark_completed None example_world = (Inr ''Error: No request ID provided'', example_world)"
    by (simp add: mark_completed_empty)
  from manage_queue_returns_text
      [of "''delete_all''" "\<lambda>s. s" "Some payload_a" "Some ''PQ_20250101_115900''" example_world]
    manage_queue_returns_text [of "''get_status''" "\<lambda>s. s" None None unreadable_world]
    manage_queue_returns_text [of "''mark_completed''" "\<lambda>s. s" None None example_world]
    g m
  show ?thesis
    by (simp add: permission_denied_def)
qed

section \<open>What the listing and the status show\<close>

text \<open>
  C8. The claim: after the admission of a payload \<open>x\<close> on a freshly initialized
  store, \<^verbatim>\<open>get_pending\<close> yields exactly one pending entry whose \<^verbatim>\<open>validation_data\<close>
  equals \<open>x\<close>. The store keeps the payload as it was given
  (\<open>admit_then_get_pending_text\<close> above), but \<^verbatim>\<open>_get_pending_requests\<close> does not hand
  it out. The docstring of the method is
  \<^verbatim>\<open>Retrieve all pending purchase requests\<close>, and the description of the tool promises
  requests \<^verbatim>\<open>with complete supplier and line item details\<close> and
  \<^verbatim>\<open>retrieving pending requests for processing\<close>; the method returns a text with the
  identifier, the creation time, the status, and of the payload the keys
  \<^verbatim>\<open>budget_status\<close>, \<^verbatim>\<open>total_cost\<close>, \<^verbatim>\<open>supplier_count\<close> and \<^verbatim>\<open>priority_items\<close> only.
  The theorem runs the code on the payload that the description gives as the
  expected format: the text ends with \<^verbatim>\<open>Validation Summary:\<close> and no line under it,
  with no supplier and no line item, whatever \<^verbatim>\<open>str\<close> prints. A different payload
  gives the same text, so the payload cannot be read from what \<^verbatim>\<open>get_pending\<close>
  yields, while the documents in the file hold the two payloads.
\<close>

theorem get_pending_omits_the_payload:
  "fst (get_pending_requests py_str (run [Admit documented_payload] json_store)) =
     Inr (clipboard @ '' Found 1 pending purchase request(s):'' @ [CHR 0x0A, CHR 0x0A] @
          blue_diamond @ '' Request ID: PQ_20250101_120002'' @ [CHR 0x0A] @
          ''   Timestamp: 2025-01-01T12:00:03'' @ [CHR 0x0A] @
          ''   Status: pending'' @ [CHR 0x0A] @
          ''   Validation Summary:'' @ [CHR 0x0A] @ [CHR 0x0A]) \<and>
   fst (get_pending_requests py_str (run [Admit other_payload] json_store)) =
     fst (get_pending_requests py_str (run [Admit documented_payload] json_store)) \<and>
   documented_payload \<noteq> other_payload \<and>
   map_option (map validation_data \<circ> pending_requests)
     (document (run [Admit documented_payload] json_store)) = Some [documented_payload] \<and>
   map_option (map validation_data \<circ> pending_requests)
     (document (run [Admit other_payload] json_store)) = Some [other_payload]"
proof -
  have a: "documented_payload \<noteq> []" and b: "other_payload \<noteq> []"
    by (simp_all add: documented_payload_def other_payload_def)
  have keys: "map_of documented_payload ''budget_status'' = None"
    "map_of documented_payload ''total_cost'' = None"
    "map_of documented_payload ''supplier_count'' = None"
    "map_of documented_payload ''priority_items'' = None"
    "map_of other_payload ''budget_status'' = None"
    "map_of other_payload ''total_cost'' = None"
    "map_of other_payload ''supplier_count'' = None"
    "map_of other_payload ''priority_items'' = None"
    by (simp_all add: documented_payload_def other_payload_def)
  have ne: "documented_payload \<noteq> other_payload"
    by (simp add: documented_payload_def other_payload_def)
  show ?thesis
    using a b keys ne
    by (simp add: json_store_literal add_to_queue_literal get_pending_requests_literal
        initial_data_def queue_item_def document_def render_request_def
        strftime_id_ticking isoformat_ticking str_nat_small digit_char_def)
qed

text \<open>
  C9. \<^verbatim>\<open>get_status\<close> prints the lengths of \<^verbatim>\<open>pending_requests\<close> and of
  \<^verbatim>\<open>completed_requests\<close> of the document it loads. After three admissions on a
  freshly initialized store and the completion of any identifier that is then
  pending, it prints 2 and 1, whatever the clock says.
\<close>

theorem get_queue_status_counts:
  "(faults w = [] \<and> file_content w = Holds d \<longrightarrow>
      get_queue_status w =
        (Inr (bar_chart @ '' Purchase Queue Status:'' @ [CHR 0x0A] @
              ''   Pending Requests: '' @ str_nat (length (pending_requests d)) @ [CHR 0x0A] @
              ''   Completed Requests: '' @ str_nat (length (completed_requests d)) @ [CHR 0x0A] @
              ''   Last Updated: '' @ last_updated (metadata d) @ [CHR 0x0A]), w)) \<and>
   (x1 \<noteq> [] \<and> x2 \<noteq> [] \<and> x3 \<noteq> [] \<and>
    faults w = [] \<and> file_content w = Holds (initial_data c u) \<and>
    document (run [Admit x1, Admit x2, Admit x3] w) = Some d3 \<and>
    rid \<in> request_id ` set (pending_requests d3) \<longrightarrow>
      (\<exists>lu. fst (get_queue_status (run [Admit x1, Admit x2, Admit x3, Complete rid] w)) =
         Inr (bar_chart @ '' Purchase Queue Status:'' @ [CHR 0x0A] @
              ''   Pending Requests: 2'' @ [CHR 0x0A] @
              ''   Completed Requests: 1'' @ [CHR 0x0A] @
              ''   Last Updated: '' @ lu @ [CHR 0x0A])))"
proof (intro conjI impI)
  assume "faults w = [] \<and> file_content w = Holds d"
  then show "get_queue_status w =
        (Inr (bar_chart @ '' Purchase Queue Status:'' @ [CHR 0x0A] @
              ''   Pending Requests: '' @ str_nat (length (pending_requests d)) @ [CHR 0x0A] @
              ''   Completed Requests: '' @ str_nat (length (completed_requests d)) @ [CHR 0x0A] @
              ''   Last Updated: '' @ last_updated (metadata d) @ [CHR 0x0A]), w)"
    by (simp add: get_queue_status_Holds)
next
  assume a: "x1 \<noteq> [] \<and> x2 \<noteq> [] \<and> x3 \<noteq> [] \<and>
    faults w = [] \<and> file_content w = Holds (initial_data c u) \<and>
    document (run [Admit x1, Admit x2, Admit x3] w) = Some d3 \<and>
    rid \<in> request_id ` set (pending_requests d3)"
  let ?w4 = "run [Admit x1, Admit x2, Admit x3, Complete rid] w"
  from a three_admits_one_completion [of x1 x2 x3 w c u d3 rid] obtain d4 where
    4: "file_content ?w4 = Holds d4" "faults ?w4 = []"
       "length (pending_requests d4) = 2" "length (completed_requests d4) = 1"
    by blast
  have "fst (get_queue_status ?w4) =
         Inr (bar_chart @ '' Purchase Queue Status:'' @ [CHR 0x0A] @
              ''   Pending Requests: 2'' @ [CHR 0x0A] @
              ''   Completed Requests: 1'' @ [CHR 0x0A] @
              ''   Last Updated: '' @ last_updated (metadata d4) @ [CHR 0x0A])"
    unfolding get_queue_status_Holds [OF 4(2) 4(1)]
    by (simp add: 4(3,4) str_nat_small digit_char_def)
  then show "\<exists>lu. fst (get_queue_status ?w4) =
         Inr (bar_chart @ '' Purchase Queue Status:'' @ [CHR 0x0A] @
              ''   Pending Requests: 2'' @ [CHR 0x0A] @
              ''   Completed Requests: 1'' @ [CHR 0x0A] @
              ''   Last Updated: '' @ lu @ [CHR 0x0A])"
    by blast
qed

text \<open>
  The theorem at work: the status of \<open>example_world\<close>, and the status after three
  admissions and the completion of the second.
\<close>

theorem get_queue_status_counts_witness:
  "faults example_world = [] \<and> file_content example_world = Holds example_doc \<and>
   get_queue_status example_world =
     (Inr (bar_chart @ '' Purchase Queue Status:'' @ [CHR 0x0A] @
           ''   Pending Requests: 3'' @ [CHR 0x0A] @
           ''   Completed Requests: 0'' @ [CHR 0x0A] @
           ''   Last Updated: 2025-01-01T11:59:01.950000'' @ [CHR 0x0A]), example_world) \<and>
   payload_a \<noteq> [] \<and> payload_b \<noteq> [] \<and> payload_c \<noteq> [] \<and>
   faults (fresh_world ticking_clock) = [] \<and>
   file_content (fresh_world ticking_clock) =
     Holds (initial_data ''2025-01-01T12:00:00'' ''2025-01-01T12:00:01'') \<and>
   map_option (map request_id \<circ> pending_requests)
     (document (run [Admit payload_a, Admit payload_b, Admit payload_c]
        (fresh_world ticking_clock))) =
     Some [''PQ_20250101_120002'', ''PQ_20250101_120005'', ''PQ_20250101_120008''] \<and>
   fst (get_queue_status
     (run [Admit payload_a, Admit payload_b, Admit payload_c, Complete ''PQ_20250101_120005'']
        (fresh_world ticking_clock))) =
     Inr (bar_chart @ '' Purchase Queue Status:'' @ [CHR 0x0A] @
          ''   Pending Requests: 2'' @ [CHR 0x0A] @
          ''   Completed Requests: 1'' @ [CHR 0x0A] @
          ''   Last Updated: 2025-01-01T12:00:12'' @ [CHR 0x0A])"
proof -
  let ?d3 = "\<lparr>pending_requests =
               [queue_item ''PQ_20250101_120002'' ''2025-01-01T12:00:03'' payload_a,
                queue_item ''PQ_20250101_120005'' ''2025-01-01T12:00:06'' payload_b,
                queue_item ''PQ_20250101_120008'' ''2025-01-01T12:00:09'' payload_c],
             completed_requests = [],
             metadata = \<lparr>created_at = ''2025-01-01T12:00:00'',
                         last_updated = ''2025-01-01T12:00:10''\<rparr>\<rparr>"
  have 1: "faults example_world = []" "file_content example_world = Holds example_doc"
    by (simp_all add: example_world_def)
  have 2: "payload_a \<noteq> []" "payload_b \<noteq> []" "payload_c \<noteq> []"
    by (simp_all add: payload_a_def payload_b_def payload_c_def)
  have 3: "faults (fresh_world ticking_clock) = []"
    "file_content (fresh_world ticking_clock) =
       Holds (initial_data ''2025-01-01T12:00:00'' ''2025-01-01T12:00:01'')"
    by (simp_all add: fresh_world_literal isoformat_ticking digit_char_def)
  have 4: "document (run [Admit payload_a, Admit payload_b, Admit payload_c]
        (fresh_world ticking_clock)) = Some ?d3"
    by (simp add: run_simps strftime_id_ticking isoformat_ticking digit_char_def)
      (simp add: ticking_clock_def render_simps)
  have 5: "''PQ_20250101_120005'' \<in> request_id ` set (pending_requests ?d3)"
    by (simp add: queue_item_def)
  have 6: "fst (get_queue_status
     (run [Admit payload_a, Admit payload_b, Admit payload_c, Complete ''PQ_20250101_120005'']
        (fresh_world ticking_clock))) =
     Inr (bar_chart @ '' Purchase Queue Status:'' @ [CHR 0x0A] @
          ''   Pending Requests: 2'' @ [CHR 0x0A] @
          ''   Completed Requests: 1'' @ [CHR 0x0A] @
          ''   Last Updated: 2025-01-01T12:00:12'' @ [CHR 0x0A])"
    by (simp add: run_simps get_queue_status_literal strftime_id_ticking str_nat_small
        digit_char_def)
      (simp add: ticking_clock_def render_simps)
  from get_queue_status_counts [of example_world example_doc]
    get_queue_status_counts [of "fresh_world ticking_clock" _ payload_a payload_b payload_c
      "''2025-01-01T12:00:00''" "''2025-01-01T12:00:01''" ?d3 "''PQ_20250101_120005''"]
    1 2 3 4 5 6
  show ?thesis
    by (simp add: example_doc_def str_nat_small digit_char_def queue_item_def)
qed

end
